theory Spec2Isabelle
  imports Complex_Main "HOL-Library.Sublist"
begin

section \<open>Python values\<close>

text \<open>
  The three modules (\<^verbatim>\<open>opencode_client.py\<close>, \<^verbatim>\<open>opencode_runner.py\<close>,
  \<^verbatim>\<open>bot_core.py\<close>) are embedded function by function. A Python \<^verbatim>\<open>str\<close> is a
  \<^typ>\<open>string\<close> whose characters stand for code points below 256; the literals of the
  source that are written in Chinese are rendered by an English gloss between square
  brackets. Exceptions are values of \<open>exn\<close>, and a call that may raise returns
  \<open>exn + 'a\<close>, with \<open>Inl\<close> for the exception.
\<close>

datatype exn =
    ValueError string
  | JSONDecodeError string
  | TimeoutException string
  | HTTPStatusError int string
  | TransportError string
  | KeyError string
  | IndexError string
  | TypeError string
  | AttributeError string
  | OverflowError string
  | OSError string
  | FileNotFoundError string
  | ProcessLookupError string
  | OtherException string

text \<open>\<^verbatim>\<open>range(start, stop, step)\<close>, as the list of its elements.\<close>

definition py_range :: "int \<Rightarrow> int \<Rightarrow> int \<Rightarrow> exn + int list" where
  "py_range start stop step =
     (if step = 0 then Inl (ValueError ''range() arg 3 must not be zero'')
      else if 0 < step then
        Inr (map (\<lambda>k. start + int k * step) [0..<nat ((stop - start + step - 1) div step)])
      else
        Inr (map (\<lambda>k. start + int k * step) [0..<nat ((start - stop - step - 1) div (- step))]))"

text \<open>The slice \<^verbatim>\<open>xs[i:j]\<close>: a negative index counts from the end, and both are clamped.\<close>

definition py_slice :: "'a list \<Rightarrow> int \<Rightarrow> int \<Rightarrow> 'a list" where
  "py_slice xs i j =
     (let n = int (length xs);
          a = (if i < 0 then max (i + n) 0 else min i n);
          b = (if j < 0 then max (j + n) 0 else min j n)
      in drop (nat a) (take (nat b) xs))"

subsection \<open>Strings\<close>

text \<open>
  \<^verbatim>\<open>str.isspace\<close> on the code points below 256: the characters that \<^verbatim>\<open>str.strip()\<close>
  removes and that \<^verbatim>\<open>int()\<close> allows around a number.
\<close>

definition py_isspace :: "char \<Rightarrow> bool" where
  "py_isspace c =
     (let n = (of_char c :: nat)
      in (9 \<le> n \<and> n \<le> 13) \<or> (28 \<le> n \<and> n \<le> 32) \<or> n = 133 \<or> n = 160)"

definition py_lstrip :: "string \<Rightarrow> string" where
  "py_lstrip s = dropWhile py_isspace s"

definition py_rstrip :: "string \<Rightarrow> string" where
  "py_rstrip s = rev (dropWhile py_isspace (rev s))"

definition py_strip :: "string \<Rightarrow> string" where
  "py_strip s = py_rstrip (py_lstrip s)"

text \<open>\<^verbatim>\<open>s.rstrip(chars)\<close> for a single character.\<close>

definition py_rstrip_char :: "char \<Rightarrow> string \<Rightarrow> string" where
  "py_rstrip_char c s = rev (dropWhile (\<lambda>x. x = c) (rev s))"

definition py_startswith :: "string \<Rightarrow> string \<Rightarrow> bool" where
  "py_startswith s p = (take (length p) s = p)"

text \<open>\<^verbatim>\<open>p in s\<close> for two strings.\<close>

fun py_contains :: "string \<Rightarrow> string \<Rightarrow> bool" where
  "py_contains [] p = (p = [])"
| "py_contains (x # xs) p = (py_startswith (x # xs) p \<or> py_contains xs p)"

text \<open>\<^verbatim>\<open>s.split(sep)\<close> for a separator of one character: one field more than separators.\<close>

fun py_split :: "char \<Rightarrow> string \<Rightarrow> string list" where
  "py_split sep [] = [[]]"
| "py_split sep (x # xs) =
     (if x = sep then [] # py_split sep xs
      else (case py_split sep xs of
              [] \<Rightarrow> [[x]]
            | f # fs \<Rightarrow> (x # f) # fs))"

text \<open>\<^verbatim>\<open>s.replace(a, b)\<close> for single characters.\<close>

definition py_replace_char :: "char \<Rightarrow> char \<Rightarrow> string \<Rightarrow> string" where
  "py_replace_char a b s = map (\<lambda>x. if x = a then b else x) s"

text \<open>\<^verbatim>\<open>xs[i]\<close> on a list: a negative index counts from the end; out of range raises.\<close>

definition py_index :: "'a list \<Rightarrow> int \<Rightarrow> exn + 'a" where
  "py_index xs i =
     (if 0 \<le> i \<and> i < int (length xs) then Inr (xs ! nat i)
      else if i < 0 \<and> - int (length xs) \<le> i then Inr (xs ! nat (int (length xs) + i))
      else Inl (IndexError ''list index out of range''))"

text \<open>
  \<^verbatim>\<open>int(s)\<close> in base 10: white space around, an optional sign, then decimal digits with
  single underscores between digits. (The interpreter's optional limit on the number of
  digits, a \<^verbatim>\<open>ValueError\<close> as well, is not modelled.)
\<close>

definition is_digit :: "char \<Rightarrow> bool" where
  "is_digit c = (48 \<le> (of_char c :: nat) \<and> (of_char c :: nat) \<le> 57)"

definition digit_val :: "char \<Rightarrow> int" where
  "digit_val c = int (of_char c) - 48"

fun digits_ok :: "bool \<Rightarrow> string \<Rightarrow> bool" where
  "digits_ok prev_digit [] = prev_digit"
| "digits_ok prev_digit (c # cs) =
     (if is_digit c then digits_ok True cs
      else if c = CHR ''_'' then prev_digit \<and> digits_ok False cs
      else False)"

definition py_int :: "string \<Rightarrow> exn + int" where
  "py_int s =
     (let t = py_strip s;
          neg = (case t of c # _ \<Rightarrow> c = CHR ''-'' | [] \<Rightarrow> False);
          body = (case t of c # r \<Rightarrow> (if c = CHR ''-'' \<or> c = CHR ''+'' then r else t) | [] \<Rightarrow> t)
      in if digits_ok False body
         then Inr ((if neg then - 1 else 1) *
                   foldl (\<lambda>a c. 10 * a + digit_val c) 0 (filter is_digit body))
         else Inl (ValueError (''invalid literal for int() with base 10: '' @ s)))"

text \<open>\<^verbatim>\<open>str(n)\<close> for an integer.\<close>

fun nat_digits :: "nat \<Rightarrow> nat \<Rightarrow> string" where
  "nat_digits 0 n = []"
| "nat_digits (Suc fuel) n =
     (if n < 10 then [''0123456789'' ! n]
      else nat_digits fuel (n div 10) @ [''0123456789'' ! (n mod 10)])"

definition py_str_int :: "int \<Rightarrow> string" where
  "py_str_int i =
     (if i < 0 then CHR ''-'' # nat_digits (Suc (nat (- i))) (nat (- i))
      else nat_digits (Suc (nat i)) (nat i))"

subsection \<open>Decoded JSON\<close>

text \<open>
  What \<^verbatim>\<open>json.loads\<close> returns: \<^verbatim>\<open>None\<close>, a bool, a number, a string, a list or a
  dict (an association list in insertion order, read with \<open>map_of\<close>). Numbers are
  rationals.
\<close>

datatype json =
    JNull
  | JBool bool
  | JNum rat
  | JStr string
  | JArr "json list"
  | JObj "(string \<times> json) list"

text \<open>Truth value testing (\<^verbatim>\<open>if x\<close>, \<^verbatim>\<open>x or y\<close>, \<^verbatim>\<open>not x\<close>).\<close>

fun py_truthy :: "json \<Rightarrow> bool" where
  "py_truthy JNull = False"
| "py_truthy (JBool b) = b"
| "py_truthy (JNum x) = (x \<noteq> 0)"
| "py_truthy (JStr s) = (s \<noteq> [])"
| "py_truthy (JArr xs) = (xs \<noteq> [])"
| "py_truthy (JObj kvs) = (kvs \<noteq> [])"

text \<open>\<^verbatim>\<open>x or y\<close>.\<close>

definition py_or :: "json \<Rightarrow> json \<Rightarrow> json" where
  "py_or x y = (if py_truthy x then x else y)"

text \<open>\<^verbatim>\<open>x.get(key)\<close>: only a dict has the method.\<close>

fun py_get :: "json \<Rightarrow> string \<Rightarrow> exn + json" where
  "py_get (JObj kvs) k = Inr (case map_of kvs k of Some v \<Rightarrow> v | None \<Rightarrow> JNull)"
| "py_get _ k = Inl (AttributeError ''object has no attribute get'')"

text \<open>\<^verbatim>\<open>for p in x\<close>: the elements of a list, the keys of a dict, the characters of a string.\<close>

fun py_iter :: "json \<Rightarrow> exn + json list" where
  "py_iter (JArr xs) = Inr xs"
| "py_iter (JObj kvs) = Inr (map (\<lambda>kv. JStr (fst kv)) kvs)"
| "py_iter (JStr s) = Inr (map (\<lambda>c. JStr [c]) s)"
| "py_iter _ = Inl (TypeError ''object is not iterable'')"

text \<open>\<^verbatim>\<open>len(x)\<close>.\<close>

fun py_len :: "json \<Rightarrow> exn + nat" where
  "py_len (JArr xs) = Inr (length xs)"
| "py_len (JObj kvs) = Inr (length kvs)"
| "py_len (JStr s) = Inr (length s)"
| "py_len _ = Inl (TypeError ''object has no len()'')"

text \<open>\<^verbatim>\<open>x[i]\<close> for an integer \<open>i\<close>, and \<^verbatim>\<open>x[k]\<close> for a string \<open>k\<close>.\<close>

fun py_item_int :: "json \<Rightarrow> int \<Rightarrow> exn + json" where
  "py_item_int (JArr xs) i = py_index xs i"
| "py_item_int (JStr s) i =
     (case py_index s i of Inl e \<Rightarrow> Inl (IndexError ''string index out of range'')
                         | Inr c \<Rightarrow> Inr (JStr [c]))"
| "py_item_int (JObj kvs) i = Inl (KeyError (py_str_int i))"
| "py_item_int _ i = Inl (TypeError ''object is not subscriptable'')"

fun py_item_str :: "json \<Rightarrow> string \<Rightarrow> exn + json" where
  "py_item_str (JObj kvs) k =
     (case map_of kvs k of Some v \<Rightarrow> Inr v | None \<Rightarrow> Inl (KeyError k))"
| "py_item_str (JArr xs) k = Inl (TypeError ''list indices must be integers or slices, not str'')"
| "py_item_str (JStr s) k = Inl (TypeError ''string indices must be integers, not str'')"
| "py_item_str _ k = Inl (TypeError ''object is not subscriptable'')"

text \<open>
  \<^verbatim>\<open>a == b\<close>: a bool is the number 0 or 1, lists are equal elementwise, dicts when they
  have the same keys with equal values, in whatever order.
\<close>

definition num_of :: "json \<Rightarrow> rat option" where
  "num_of v = (case v of JBool b \<Rightarrow> Some (if b then 1 else 0) | JNum x \<Rightarrow> Some x | _ \<Rightarrow> None)"

fun py_eq :: "json \<Rightarrow> json \<Rightarrow> bool"
  and py_eq_list :: "json list \<Rightarrow> json list \<Rightarrow> bool"
  and py_eq_lookup :: "string \<Rightarrow> json \<Rightarrow> (string \<times> json) list \<Rightarrow> bool"
  and py_eq_entries :: "(string \<times> json) list \<Rightarrow> (string \<times> json) list \<Rightarrow> bool"
where
  "py_eq JNull b = (b = JNull)"
| "py_eq (JBool x) b = (num_of b = Some (if x then 1 else 0))"
| "py_eq (JNum x) b = (num_of b = Some x)"
| "py_eq (JStr s) b = (b = JStr s)"
| "py_eq (JArr xs) b = (case b of JArr ys \<Rightarrow> py_eq_list xs ys | _ \<Rightarrow> False)"
| "py_eq (JObj xs) b =
     (case b of JObj ys \<Rightarrow> length xs = length ys \<and> py_eq_entries xs ys | _ \<Rightarrow> False)"
| "py_eq_list [] ys = (ys = [])"
| "py_eq_list (x # xs) ys =
     (case ys of [] \<Rightarrow> False | y # ys' \<Rightarrow> py_eq x y \<and> py_eq_list xs ys')"
| "py_eq_lookup k v [] = False"
| "py_eq_lookup k v (kv # ys) =
     (if fst kv = k then py_eq v (snd kv) else py_eq_lookup k v ys)"
| "py_eq_entries [] ys = True"
| "py_eq_entries (kv # xs) ys = (py_eq_lookup (fst kv) (snd kv) ys \<and> py_eq_entries xs ys)"

text \<open>
  \<^verbatim>\<open>a < b\<close>: numbers by value, strings by code points, lists by their first unequal
  elements; any other pair raises \<^verbatim>\<open>TypeError\<close>.
\<close>

fun str_lt :: "string \<Rightarrow> string \<Rightarrow> bool" where
  "str_lt [] ys = (ys \<noteq> [])"
| "str_lt (x # xs) [] = False"
| "str_lt (x # xs) (y # ys) =
     (if x = y then str_lt xs ys else (of_char x :: nat) < of_char y)"

fun py_lt :: "json \<Rightarrow> json \<Rightarrow> exn + bool"
  and py_lt_list :: "json list \<Rightarrow> json list \<Rightarrow> exn + bool"
where
  "py_lt a b =
     (case (num_of a, num_of b) of
        (Some x, Some y) \<Rightarrow> Inr (x < y)
      | _ \<Rightarrow>
        (case (a, b) of
           (JStr s, JStr t) \<Rightarrow> Inr (str_lt s t)
         | (JArr xs, JArr ys) \<Rightarrow> py_lt_list xs ys
         | _ \<Rightarrow> Inl (TypeError ''< not supported between instances'')))"
| "py_lt_list [] ys = Inr (ys \<noteq> [])"
| "py_lt_list (x # xs) ys =
     (case ys of
        [] \<Rightarrow> Inr False
      | y # ys' \<Rightarrow> if py_eq x y then py_lt_list xs ys' else py_lt x y)"

text \<open>The message of an exception, \<^verbatim>\<open>str(e)\<close> (a \<^verbatim>\<open>KeyError\<close> shows its key quoted).\<close>

fun str_exn :: "exn \<Rightarrow> string" where
  "str_exn (ValueError m) = m"
| "str_exn (JSONDecodeError m) = m"
| "str_exn (TimeoutException m) = m"
| "str_exn (HTTPStatusError code m) = m"
| "str_exn (TransportError m) = m"
| "str_exn (KeyError k) = [CHR 0x27] @ k @ [CHR 0x27]"
| "str_exn (IndexError m) = m"
| "str_exn (TypeError m) = m"
| "str_exn (AttributeError m) = m"
| "str_exn (OverflowError m) = m"
| "str_exn (OSError m) = m"
| "str_exn (FileNotFoundError m) = m"
| "str_exn (ProcessLookupError m) = m"
| "str_exn (OtherException m) = m"

text \<open>The classes that \<^verbatim>\<open>except OSError\<close> catches (\<^verbatim>\<open>socket.error\<close> is \<^verbatim>\<open>OSError\<close>).\<close>

fun is_OSError :: "exn \<Rightarrow> bool" where
  "is_OSError (OSError m) = True"
| "is_OSError (FileNotFoundError m) = True"
| "is_OSError (ProcessLookupError m) = True"
| "is_OSError _ = False"

section \<open>The world outside the program\<close>

text \<open>
  Everything the program asks of its libraries and of the operating system is a field of
  an environment \<open>env\<close>, over a state \<open>'w\<close> of the outside world that each effect may
  change: the HTTP client, the socket probe, signals, the clock, the file system and
  process creation. The functions of the source are embedded for an arbitrary
  environment. \<^verbatim>\<open>_get_process_on_port\<close>, which only runs and reads operating-system
  tools, is left as such a field. A floating-point number is a rational or one of the
  three special values; time is measured in seconds.
\<close>

datatype pyfloat = Fin rat | PosInf | NegInf | NaN

datatype endpoint =
    GlobalHealth
  | Session
  | SessionMessage json
  | SessionPromptAsync json

record request =
  rq_method :: string
  rq_base_url :: string
  rq_path :: endpoint
  rq_auth :: "(string \<times> string) option"
  rq_timeout :: pyfloat
  rq_json :: "json option"
  rq_params :: "(string \<times> int) list"

record response =
  status_code :: int
  body :: string

record popen_args =
  p_args :: "string list"
  p_log :: "string option"
  p_start_new_session :: bool
  p_cwd :: string

datatype event =
    Http request
  | Connect string int
  | ProcessOnPort int
  | Kill int int
  | Sleep rat
  | Makedirs string
  | OpenAppend string
  | CloseFile string
  | Popen popen_args

record 'w env =
  environ :: "string \<Rightarrow> string option"
  json_loads :: "string \<Rightarrow> exn + json"
  float_of_str :: "string \<Rightarrow> pyfloat option"
  expanduser :: "string \<Rightarrow> string"
  abspath :: "string \<Rightarrow> string"
  today_ymd :: "'w \<Rightarrow> string"
  monotonic :: "'w \<Rightarrow> rat"
  http_send :: "request \<Rightarrow> 'w \<Rightarrow> (exn + response) \<times> 'w"
  socket_connect :: "string \<Rightarrow> int \<Rightarrow> 'w \<Rightarrow> (exn + unit) \<times> 'w"
  get_process_on_port :: "int \<Rightarrow> 'w \<Rightarrow> (exn + int option \<times> string option) \<times> 'w"
  os_kill :: "int \<Rightarrow> int \<Rightarrow> 'w \<Rightarrow> (exn + unit) \<times> 'w"
  time_sleep :: "rat \<Rightarrow> 'w \<Rightarrow> 'w"
  os_makedirs :: "string \<Rightarrow> 'w \<Rightarrow> (exn + unit) \<times> 'w"
  open_append :: "string \<Rightarrow> 'w \<Rightarrow> (exn + unit) \<times> 'w"
  close_file :: "string \<Rightarrow> 'w \<Rightarrow> (exn + unit) \<times> 'w"
  subprocess_Popen :: "popen_args \<Rightarrow> 'w \<Rightarrow> (exn + int) \<times> 'w"

text \<open>
  The state of the program: the outside world, the effects performed so far, in order,
  and the two module-level variables of \<^verbatim>\<open>bot_core\<close> (\<^verbatim>\<open>None\<close> is \<open>JNull\<close>).
\<close>

record 'w state =
  world :: 'w
  trace :: "event list"
  current_session_id :: json
  last_opencode_cwd :: "string option"

definition effect ::
  "event \<Rightarrow> ('w \<Rightarrow> 'a \<times> 'w) \<Rightarrow> ('w, 'x) state_scheme \<Rightarrow> 'a \<times> ('w, 'x) state_scheme" where
  "effect ev f s =
     (case f (world s) of (r, w) \<Rightarrow> (r, s\<lparr>world := w, trace := trace s @ [ev]\<rparr>))"

definition do_http :: "'w env \<Rightarrow> request \<Rightarrow> 'w state \<Rightarrow> (exn + response) \<times> 'w state" where
  "do_http env rq = effect (Http rq) (http_send env rq)"

definition do_connect :: "'w env \<Rightarrow> string \<Rightarrow> int \<Rightarrow> 'w state \<Rightarrow> (exn + unit) \<times> 'w state" where
  "do_connect env host port = effect (Connect host port) (socket_connect env host port)"

definition do_process_on_port ::
  "'w env \<Rightarrow> int \<Rightarrow> 'w state \<Rightarrow> (exn + int option \<times> string option) \<times> 'w state" where
  "do_process_on_port env port = effect (ProcessOnPort port) (get_process_on_port env port)"

definition do_kill :: "'w env \<Rightarrow> int \<Rightarrow> int \<Rightarrow> 'w state \<Rightarrow> (exn + unit) \<times> 'w state" where
  "do_kill env pid sig = effect (Kill pid sig) (os_kill env pid sig)"

definition do_sleep :: "'w env \<Rightarrow> rat \<Rightarrow> 'w state \<Rightarrow> 'w state" where
  "do_sleep env d s = snd (effect (Sleep d) (\<lambda>w. ((), time_sleep env d w)) s)"

definition do_makedirs :: "'w env \<Rightarrow> string \<Rightarrow> 'w state \<Rightarrow> (exn + unit) \<times> 'w state" where
  "do_makedirs env path = effect (Makedirs path) (os_makedirs env path)"

definition do_open_append :: "'w env \<Rightarrow> string \<Rightarrow> 'w state \<Rightarrow> (exn + unit) \<times> 'w state" where
  "do_open_append env path = effect (OpenAppend path) (open_append env path)"

definition do_close :: "'w env \<Rightarrow> string \<Rightarrow> 'w state \<Rightarrow> (exn + unit) \<times> 'w state" where
  "do_close env path = effect (CloseFile path) (close_file env path)"

definition do_popen :: "'w env \<Rightarrow> popen_args \<Rightarrow> 'w state \<Rightarrow> (exn + int) \<times> 'w state" where
  "do_popen env a = effect (Popen a) (subprocess_Popen env a)"

section \<open>bot\_core: chunk\_text\<close>

text \<open>
  \<^verbatim>\<open>
  def chunk_text(text, size=MAX_MESSAGE_LENGTH):
      if len(text) <= size:
          return [text] if text else []
      out = []
      for i in range(0, len(text), size):
          out.append(text[i : i + size])
      return out
  \<close>
\<close>

definition MAX_MESSAGE_LENGTH :: int where
  "MAX_MESSAGE_LENGTH = 4096"

definition chunk_text :: "string \<Rightarrow> int \<Rightarrow> exn + string list" where
  "chunk_text txt sz =
     (if int (length txt) \<le> sz then Inr (if txt \<noteq> [] then [txt] else [])
      else case py_range 0 (int (length txt)) sz of
             Inl e \<Rightarrow> Inl e
           | Inr starts \<Rightarrow> Inr (map (\<lambda>i. py_slice txt i (i + sz)) starts))"

section \<open>opencode\_client\<close>

definition DEFAULT_BASE_URL :: string where
  "DEFAULT_BASE_URL = ''http://127.0.0.1:4096''"

text \<open>\<^verbatim>\<open>os.environ.get(key, default)\<close>.\<close>

definition environ_get :: "'w env \<Rightarrow> string \<Rightarrow> string \<Rightarrow> string" where
  "environ_get env k d = (case environ env k of Some v \<Rightarrow> v | None \<Rightarrow> d)"

definition client_get_base_url :: "'w env \<Rightarrow> string" where
  "client_get_base_url env = environ_get env ''OPENCODE_BASE_URL'' DEFAULT_BASE_URL"

text \<open>
  \<^verbatim>\<open>_message_timeout\<close>: \<^verbatim>\<open>max(60.0, float(t))\<close> keeps 60 unless the number is greater; a
  text that is no number gives the default.
\<close>

definition message_timeout :: "'w env \<Rightarrow> pyfloat" where
  "message_timeout env =
     (let t = environ_get env ''OPENCODE_MESSAGE_TIMEOUT'' []
      in if t \<noteq> [] then
           (case float_of_str env t of
              None \<Rightarrow> Fin 600
            | Some (Fin x) \<Rightarrow> (if 60 < x then Fin x else Fin 60)
            | Some PosInf \<Rightarrow> PosInf
            | Some _ \<Rightarrow> Fin 60)
         else Fin 600)"

definition auth :: "'w env \<Rightarrow> (string \<times> string) option" where
  "auth env =
     (let password = environ_get env ''OPENCODE_SERVER_PASSWORD'' []
      in if password = [] then None
         else Some (environ_get env ''OPENCODE_SERVER_USERNAME'' ''opencode'', password))"

definition msg_empty_body :: "int \<Rightarrow> string \<Rightarrow> string" where
  "msg_empty_body status url =
     ''OpenCode [returned empty content] (HTTP '' @ py_str_int status @
     '')[, check that the service is started and the address is right]: '' @ url"

definition msg_not_json :: "int \<Rightarrow> string \<Rightarrow> string \<Rightarrow> string" where
  "msg_not_json status preview err =
     ''OpenCode [returned non-JSON] (HTTP '' @ py_str_int status @
     '')[, content preview]: '' @ preview @ ''[. Error]: '' @ err"

text \<open>
  \<^verbatim>\<open>_parse_json\<close>. The preview is \<^verbatim>\<open>text[:200].replace("\n", " ")\<close>; only a
  \<^verbatim>\<open>JSONDecodeError\<close> of the decoder is caught.
\<close>

definition parse_json :: "'w env \<Rightarrow> response \<Rightarrow> exn + json" where
  "parse_json env r =
     (let txt = py_strip (body r)
      in if txt = [] then
           Inl (ValueError (msg_empty_body (status_code r) (client_get_base_url env)))
         else
           (case json_loads env txt of
              Inl (JSONDecodeError e) \<Rightarrow>
                Inl (ValueError (msg_not_json (status_code r)
                       (py_replace_char (CHR 0x0A) CHR '' '' (take 200 txt)) e))
            | Inl e \<Rightarrow> Inl e
            | Inr v \<Rightarrow> Inr v))"

text \<open>
  \<^verbatim>\<open>_extract_final_result\<close>. The comprehension is \<open>text_parts\<close>: it raises at the first
  part that has no \<^verbatim>\<open>get\<close>; \<^verbatim>\<open>"text" in p\<close> is reached for a dict only.
\<close>

fun has_key :: "json \<Rightarrow> string \<Rightarrow> bool" where
  "has_key (JObj kvs) k = (map_of kvs k \<noteq> None)"
| "has_key _ k = False"

fun text_parts :: "json list \<Rightarrow> exn + json list" where
  "text_parts [] = Inr []"
| "text_parts (p # ps) =
     (case py_get p ''type'' of
        Inl e \<Rightarrow> Inl e
      | Inr ty \<Rightarrow>
          if py_eq ty (JStr ''text'') \<and> has_key p ''text'' then
            (case py_get p ''text'' of
               Inl e \<Rightarrow> Inl e
             | Inr t \<Rightarrow> (case text_parts ps of Inl e \<Rightarrow> Inl e | Inr ts \<Rightarrow> Inr (t # ts)))
          else text_parts ps)"

definition extract_final_result :: "json \<Rightarrow> exn + string" where
  "extract_final_result data =
     (case py_get data ''parts'' of
        Inl e \<Rightarrow> Inl e
      | Inr v \<Rightarrow>
          (case py_iter (py_or v (JArr [])) of
             Inl e \<Rightarrow> Inl e
           | Inr parts \<Rightarrow>
               (case text_parts parts of
                  Inl e \<Rightarrow> Inl e
                | Inr ts \<Rightarrow>
                    if ts = [] then Inr []
                    else (case last ts of
                            JStr t \<Rightarrow> Inr (py_strip t)
                          | _ \<Rightarrow> Inl (AttributeError ''object has no attribute strip'')))))"

text \<open>
  \<^verbatim>\<open>raise_for_status\<close> of the HTTP library: any status outside 200..299 raises, with the
  status code in the exception.
\<close>

definition raise_for_status :: "response \<Rightarrow> exn + unit" where
  "raise_for_status r =
     (if 200 \<le> status_code r \<and> status_code r \<le> 299 then Inr ()
      else Inl (HTTPStatusError (status_code r) (''HTTP status '' @ py_str_int (status_code r))))"

definition client_request ::
  "'w env \<Rightarrow> string \<Rightarrow> endpoint \<Rightarrow> pyfloat \<Rightarrow> json option \<Rightarrow> (string \<times> int) list \<Rightarrow> request" where
  "client_request env meth path tmo js params =
     \<lparr>rq_method = meth, rq_base_url = client_get_base_url env, rq_path = path,
      rq_auth = auth env, rq_timeout = tmo, rq_json = js, rq_params = params\<rparr>"

text \<open>
  The body shared by \<^verbatim>\<open>health\<close>, \<^verbatim>\<open>list_sessions\<close>, \<^verbatim>\<open>create_session\<close> and
  \<^verbatim>\<open>_get_messages\<close>: one request, \<^verbatim>\<open>r.raise_for_status()\<close>, \<^verbatim>\<open>return _parse_json(r)\<close>.
\<close>

definition fetch_json :: "'w env \<Rightarrow> request \<Rightarrow> 'w state \<Rightarrow> (exn + json) \<times> 'w state" where
  "fetch_json env rq s =
     (case do_http env rq s of
        (Inl e, s1) \<Rightarrow> (Inl e, s1)
      | (Inr r, s1) \<Rightarrow>
          (case raise_for_status r of
             Inl e \<Rightarrow> (Inl e, s1)
           | Inr u \<Rightarrow> (parse_json env r, s1)))"

definition health :: "'w env \<Rightarrow> 'w state \<Rightarrow> (exn + json) \<times> 'w state" where
  "health env = fetch_json env (client_request env ''GET'' GlobalHealth (Fin 10) None [])"

definition list_sessions :: "'w env \<Rightarrow> 'w state \<Rightarrow> (exn + json) \<times> 'w state" where
  "list_sessions env = fetch_json env (client_request env ''GET'' Session (Fin 10) None [])"

definition create_session ::
  "'w env \<Rightarrow> string option \<Rightarrow> 'w state \<Rightarrow> (exn + json) \<times> 'w state" where
  "create_session env title =
     fetch_json env (client_request env ''POST'' Session (Fin 10)
       (Some (case title of
                None \<Rightarrow> JObj []
              | Some t \<Rightarrow> if t \<noteq> [] then JObj [(''title'', JStr t)] else JObj [])) [])"

definition get_messages ::
  "'w env \<Rightarrow> json \<Rightarrow> int \<Rightarrow> 'w state \<Rightarrow> (exn + json) \<times> 'w state" where
  "get_messages env session_id limit =
     fetch_json env
       (client_request env ''GET'' (SessionMessage session_id) (Fin 15) None [(''limit'', limit)])"

definition get_session_messages ::
  "'w env \<Rightarrow> json \<Rightarrow> int \<Rightarrow> 'w state \<Rightarrow> (exn + json) \<times> 'w state" where
  "get_session_messages env session_id limit = get_messages env session_id limit"

definition prompt_body :: "string \<Rightarrow> json" where
  "prompt_body txt = JObj [(''parts'', JArr [JObj [(''type'', JStr ''text''), (''text'', JStr txt)]])]"

definition float_add :: "rat \<Rightarrow> pyfloat \<Rightarrow> pyfloat" where
  "float_add a x = (case x of Fin r \<Rightarrow> Fin (a + r) | other \<Rightarrow> other)"

definition float_lt :: "rat \<Rightarrow> pyfloat \<Rightarrow> bool" where
  "float_lt a x = (case x of Fin r \<Rightarrow> a < r | PosInf \<Rightarrow> True | other \<Rightarrow> False)"

definition msg_poll_timeout :: string where
  "msg_poll_timeout = ''[timed out polling for the result]''"

text \<open>
  The loop of \<^verbatim>\<open>send_message_async_poll\<close>:
  \<^verbatim>\<open>
      while time.monotonic() < deadline:
          await asyncio.sleep(3)
          messages = await _get_messages(session_id, limit=10)
          if len(messages) > n_before:
              last = messages[-1]
              result = _extract_final_result(last)
              if result:
                  return result
      raise httpx.TimeoutException(...)
  \<close>
  It need not end (the clock is the environment's), so its value is an option: \<open>None\<close>
  when it runs forever.
\<close>

partial_function (option) poll_result ::
  "'w env \<Rightarrow> json \<Rightarrow> nat \<Rightarrow> pyfloat \<Rightarrow> 'w state \<Rightarrow> ((exn + string) \<times> 'w state) option" where
  "poll_result env session_id n_before deadline s =
     (if float_lt (monotonic env (world s)) deadline then
        (case get_messages env session_id 10 (do_sleep env 3 s) of
           (Inl e, s1) \<Rightarrow> Some (Inl e, s1)
         | (Inr messages, s1) \<Rightarrow>
             (case py_len messages of
                Inl e \<Rightarrow> Some (Inl e, s1)
              | Inr n \<Rightarrow>
                  if n_before < n then
                    (case py_item_int messages (- 1) of
                       Inl e \<Rightarrow> Some (Inl e, s1)
                     | Inr lst \<Rightarrow>
                         (case extract_final_result lst of
                            Inl e \<Rightarrow> Some (Inl e, s1)
                          | Inr result \<Rightarrow>
                              if result \<noteq> [] then Some (Inr result, s1)
                              else poll_result env session_id n_before deadline s1))
                  else poll_result env session_id n_before deadline s1))
      else Some (Inl (TimeoutException msg_poll_timeout), s))"

declare poll_result.simps [code]

definition send_message_async_poll ::
  "'w env \<Rightarrow> json \<Rightarrow> string \<Rightarrow> 'w state \<Rightarrow> ((exn + string) \<times> 'w state) option" where
  "send_message_async_poll env session_id txt s =
     (let timeout = message_timeout env
      in case do_http env (client_request env ''POST'' (SessionPromptAsync session_id) (Fin 15)
                             (Some (prompt_body txt)) []) s of
           (Inl e, s1) \<Rightarrow> Some (Inl e, s1)
         | (Inr r, s1) \<Rightarrow>
             (case raise_for_status r of
                Inl e \<Rightarrow> Some (Inl e, s1)
              | Inr u \<Rightarrow>
                  (case get_messages env session_id 10 s1 of
                     (Inl e, s2) \<Rightarrow> Some (Inl e, s2)
                   | (Inr messages, s2) \<Rightarrow>
                       (case py_len messages of
                          Inl e \<Rightarrow> Some (Inl e, s2)
                        | Inr n_before \<Rightarrow>
                            poll_result env session_id n_before
                              (float_add (monotonic env (world s2)) timeout) s2))))"

definition send_message ::
  "'w env \<Rightarrow> json \<Rightarrow> string \<Rightarrow> 'w state \<Rightarrow> ((exn + string) \<times> 'w state) option" where
  "send_message env session_id txt s =
     (if py_strip (environ_get env ''OPENCODE_USE_ASYNC'' []) \<in> set [''1'', ''true'', ''yes'']
      then send_message_async_poll env session_id txt s
      else
        (case do_http env (client_request env ''POST'' (SessionMessage session_id)
                             (message_timeout env) (Some (prompt_body txt)) []) s of
           (Inl e, s1) \<Rightarrow> Some (Inl e, s1)
         | (Inr r, s1) \<Rightarrow>
             (case raise_for_status r of
                Inl e \<Rightarrow> Some (Inl e, s1)
              | Inr u \<Rightarrow>
                  (case parse_json env r of
                     Inl e \<Rightarrow> Some (Inl e, s1)
                   | Inr data \<Rightarrow> Some (extract_final_result data, s1)))))"

section \<open>opencode\_runner\<close>

definition DEFAULT_PORT :: int where
  "DEFAULT_PORT = 4096"

definition DEFAULT_HOST :: string where
  "DEFAULT_HOST = ''127.0.0.1''"

definition OPENCODE_SERVE_CMD :: "string list" where
  "OPENCODE_SERVE_CMD = [''opencode'', ''serve'']"

definition get_base_url :: "'w env \<Rightarrow> string" where
  "get_base_url env =
     environ_get env ''OPENCODE_BASE_URL'' (''http://'' @ DEFAULT_HOST @ '':'' @ py_str_int DEFAULT_PORT)"

text \<open>
  \<^verbatim>\<open>
  def _parse_port_from_base_url(url):
      try:
          if url.startswith("http://"):
              rest = url[7:]
          elif url.startswith("https://"):
              rest = url[8:]
          else:
              rest = url
          host_port = rest.split("/")[0]
          if ":" in host_port:
              return int(host_port.split(":")[-1])
          return 80 if "https" in url else 80
      except Exception:
          return DEFAULT_PORT
  \<close>
  \<open>parse_port_try\<close> is the body of the \<^verbatim>\<open>try\<close>.
\<close>

definition parse_port_try :: "string \<Rightarrow> exn + int" where
  "parse_port_try url =
     (let rest = (if py_startswith url ''http://'' then drop 7 url
                  else if py_startswith url ''https://'' then drop 8 url
                  else url)
      in case py_index (py_split CHR ''/'' rest) 0 of
           Inl e \<Rightarrow> Inl e
         | Inr host_port \<Rightarrow>
             if py_contains host_port '':'' then
               (case py_index (py_split CHR '':'' host_port) (- 1) of
                  Inl e \<Rightarrow> Inl e
                | Inr p \<Rightarrow> py_int p)
             else Inr (if py_contains url ''https'' then 80 else 80))"

definition parse_port_from_base_url :: "string \<Rightarrow> int" where
  "parse_port_from_base_url url =
     (case parse_port_try url of Inl e \<Rightarrow> DEFAULT_PORT | Inr p \<Rightarrow> p)"

text \<open>\<^verbatim>\<open>x or d\<close> for an optional integer and for an optional string.\<close>

definition int_or :: "int option \<Rightarrow> int \<Rightarrow> int" where
  "int_or x d = (case x of None \<Rightarrow> d | Some i \<Rightarrow> if i \<noteq> 0 then i else d)"

definition str_truthy :: "string option \<Rightarrow> bool" where
  "str_truthy x = (case x of None \<Rightarrow> False | Some t \<Rightarrow> t \<noteq> [])"

definition str_or :: "string option \<Rightarrow> string \<Rightarrow> string" where
  "str_or x d = (case x of None \<Rightarrow> d | Some t \<Rightarrow> if t \<noteq> [] then t else d)"

text \<open>
  The first statements of \<^verbatim>\<open>start_opencode\<close>, \<^verbatim>\<open>restart_opencode\<close> and (after its
  first health check) \<^verbatim>\<open>ensure_opencode_running\<close>:
  \<^verbatim>\<open>
      port = port or _parse_port_from_base_url(get_base_url())
      if port == 80:
          port = DEFAULT_PORT
  \<close>
\<close>

definition resolve_port :: "'w env \<Rightarrow> int option \<Rightarrow> int" where
  "resolve_port env port =
     (let p = int_or port (parse_port_from_base_url (get_base_url env))
      in if p = 80 then DEFAULT_PORT else p)"

text \<open>
  \<^verbatim>\<open>check_port\<close>: a failed connection (an \<^verbatim>\<open>OSError\<close>) means the port is free; any
  other exception leaves the function.
\<close>

definition check_port ::
  "'w env \<Rightarrow> int \<Rightarrow> 'w state \<Rightarrow> (exn + bool \<times> int option \<times> string option) \<times> 'w state" where
  "check_port env port s =
     (case do_connect env DEFAULT_HOST port s of
        (Inl e, s1) \<Rightarrow> if is_OSError e then (Inr (False, None, None), s1) else (Inl e, s1)
      | (Inr u, s1) \<Rightarrow>
          (case do_process_on_port env port s1 of
             (Inl e, s2) \<Rightarrow> (Inl e, s2)
           | (Inr (pid, cmd), s2) \<Rightarrow> (Inr (True, pid, cmd), s2)))"

text \<open>
  \<^verbatim>\<open>is_opencode_healthy\<close>: one request (\<open>health_request\<close>, with a timeout of 3
  seconds); every exception is caught; healthy means status 200 and a body whose field
  \<^verbatim>\<open>healthy\<close> is \<^verbatim>\<open>True\<close> itself.
\<close>

definition health_request :: "'w env \<Rightarrow> request" where
  "health_request env =
     \<lparr>rq_method = ''GET'', rq_base_url = py_rstrip_char CHR ''/'' (get_base_url env),
      rq_path = GlobalHealth,
      rq_auth = (if environ_get env ''OPENCODE_SERVER_PASSWORD'' [] \<noteq> [] then
                   Some (environ_get env ''OPENCODE_SERVER_USERNAME'' ''opencode'',
                         environ_get env ''OPENCODE_SERVER_PASSWORD'' [])
                 else None),
      rq_timeout = Fin 3, rq_json = None, rq_params = []\<rparr>"

definition is_opencode_healthy :: "'w env \<Rightarrow> 'w state \<Rightarrow> bool \<times> 'w state" where
  "is_opencode_healthy env s =
     (case do_http env (health_request env) s of
        (Inl e, s1) \<Rightarrow> (False, s1)
      | (Inr r, s1) \<Rightarrow>
          (if status_code r = 200 then
             (case json_loads env (body r) of
                Inl e \<Rightarrow> False
              | Inr data \<Rightarrow>
                  (case py_get data ''healthy'' of
                     Inl e \<Rightarrow> False
                   | Inr v \<Rightarrow> v = JBool True))
           else False, s1))"

definition default_cwd :: "'w env \<Rightarrow> 'w state \<Rightarrow> string" where
  "default_cwd env s =
     (let cwd = py_strip (environ_get env ''OPENCODE_CWD'' [])
      in if cwd \<noteq> [] then abspath env (expanduser env cwd)
         else expanduser env (''~/bots/'' @ today_ymd env (world s)))"

definition msg_mkdir_failed :: "string \<Rightarrow> exn \<Rightarrow> string" where
  "msg_mkdir_failed work_dir e = ''[cannot create directory] '' @ work_dir @ '': '' @ str_exn e"

definition msg_no_opencode :: string where
  "msg_no_opencode = ''[opencode command not found, check that it is installed and in PATH]''"

definition msg_started :: "int \<Rightarrow> string \<Rightarrow> int \<Rightarrow> string \<Rightarrow> string" where
  "msg_started pid hostname port work_dir =
     ''[started] opencode serve (pid='' @ py_str_int pid @ '', '' @ hostname @ '':'' @
     py_str_int port @ '', cwd='' @ work_dir @ '')''"

text \<open>
  \<^verbatim>\<open>start_opencode\<close>. \<^verbatim>\<open>os.makedirs(work_dir, exist_ok=True)\<close> creates the directory if
  absent; the log is opened in append mode; the process is started with
  \<^verbatim>\<open>start_new_session=True\<close>, detached from the supervisor. An exception of
  \<^verbatim>\<open>makedirs\<close> that is no \<^verbatim>\<open>OSError\<close> is not caught.
\<close>

definition start_opencode ::
  "'w env \<Rightarrow> int option \<Rightarrow> string option \<Rightarrow> string option \<Rightarrow> string option \<Rightarrow> 'w state \<Rightarrow>
   (exn + bool \<times> string) \<times> 'w state" where
  "start_opencode env port hostname log_path cwd s =
     (let port1 = resolve_port env port;
          hostname1 = str_or hostname DEFAULT_HOST;
          work_dir = (if str_truthy cwd then abspath env (expanduser env (str_or cwd []))
                      else default_cwd env s)
      in case do_makedirs env work_dir s of
           (Inl e, s1) \<Rightarrow>
             if is_OSError e then (Inr (False, msg_mkdir_failed work_dir e), s1) else (Inl e, s1)
         | (Inr u, s1) \<Rightarrow>
             (let args = OPENCODE_SERVE_CMD @ [''--port'', py_str_int port1, ''--hostname'', hostname1];
                  failed = (\<lambda>e. case e of FileNotFoundError m \<Rightarrow> msg_no_opencode | _ \<Rightarrow> str_exn e);
                  opened = (if str_truthy log_path then do_open_append env (str_or log_path []) s1
                            else (Inr (), s1))
              in case opened of
                   (Inl e, s2) \<Rightarrow> (Inr (False, failed e), s2)
                 | (Inr u, s2) \<Rightarrow>
                     (case do_popen env \<lparr>p_args = args,
                                          p_log = (if str_truthy log_path then log_path else None),
                                          p_start_new_session = True, p_cwd = work_dir\<rparr> s2 of
                        (Inl e, s3) \<Rightarrow> (Inr (False, failed e), s3)
                      | (Inr pid, s3) \<Rightarrow>
                          (Inr (True, msg_started pid hostname1 port1 work_dir),
                           if str_truthy log_path then snd (do_close env (str_or log_path []) s3)
                           else s3))))"

text \<open>
  \<^verbatim>\<open>
  def _kill_port_process(port):
      in_use, pid, _ = check_port(port)
      if not in_use or not pid:
          return True
      try:
          os.kill(pid, 15)
          for _ in range(10):
              time.sleep(0.5)
              in_use2, _, _ = check_port(port)
              if not in_use2:
                  return True
          os.kill(pid, 9)
          time.sleep(0.5)
          return True
      except ProcessLookupError:
          return True
      except Exception:
          return False
  \<close>
  \<open>wait_port_free\<close> is the \<^verbatim>\<open>for\<close> loop (\<open>Inr True\<close>: it returned), \<open>kill_except\<close> the
  two handlers.
\<close>

fun wait_port_free :: "'w env \<Rightarrow> int \<Rightarrow> nat \<Rightarrow> 'w state \<Rightarrow> (exn + bool) \<times> 'w state" where
  "wait_port_free env port 0 s = (Inr False, s)"
| "wait_port_free env port (Suc n) s =
     (case check_port env port (do_sleep env (1 / 2) s) of
        (Inl e, s1) \<Rightarrow> (Inl e, s1)
      | (Inr (in_use2, owner), s1) \<Rightarrow>
          if \<not> in_use2 then (Inr True, s1) else wait_port_free env port n s1)"

definition kill_except :: "exn \<Rightarrow> bool" where
  "kill_except e = (case e of ProcessLookupError m \<Rightarrow> True | _ \<Rightarrow> False)"

definition kill_port_process :: "'w env \<Rightarrow> int \<Rightarrow> 'w state \<Rightarrow> (exn + bool) \<times> 'w state" where
  "kill_port_process env port s =
     (case check_port env port s of
        (Inl e, s1) \<Rightarrow> (Inl e, s1)
      | (Inr (in_use, pid, c), s1) \<Rightarrow>
          if \<not> in_use \<or> int_or pid 0 = 0 then (Inr True, s1)
          else
            (case do_kill env (int_or pid 0) 15 s1 of
               (Inl e, s2) \<Rightarrow> (Inr (kill_except e), s2)
             | (Inr u, s2) \<Rightarrow>
                 (case wait_port_free env port 10 s2 of
                    (Inl e, s3) \<Rightarrow> (Inr (kill_except e), s3)
                  | (Inr freed, s3) \<Rightarrow>
                      if freed then (Inr True, s3)
                      else
                        (case do_kill env (int_or pid 0) 9 s3 of
                           (Inl e, s4) \<Rightarrow> (Inr (kill_except e), s4)
                         | (Inr u, s4) \<Rightarrow> (Inr True, do_sleep env (1 / 2) s4)))))"

text \<open>
  The health polls of \<^verbatim>\<open>restart_opencode\<close> and \<^verbatim>\<open>ensure_opencode_running\<close>:
  \<^verbatim>\<open>
      for _ in range(n):
          time.sleep(1)
          if is_opencode_healthy():
              return True, ...
  \<close>
\<close>

fun wait_healthy :: "'w env \<Rightarrow> nat \<Rightarrow> 'w state \<Rightarrow> bool \<times> 'w state" where
  "wait_healthy env 0 s = (False, s)"
| "wait_healthy env (Suc n) s =
     (case is_opencode_healthy env (do_sleep env 1 s) of
        (h, s1) \<Rightarrow> if h then (True, s1) else wait_healthy env n s1)"

definition msg_cannot_kill :: "int \<Rightarrow> string" where
  "msg_cannot_kill port = ''[cannot terminate the process on port] '' @ py_str_int port"

definition msg_restarted :: "string \<Rightarrow> string" where
  "msg_restarted msg = ''[restarted] OpenCode: '' @ msg"

definition msg_started_unhealthy :: "string \<Rightarrow> string" where
  "msg_started_unhealthy msg = ''[started but the health check did not pass]: '' @ msg"

text \<open>
  \<^verbatim>\<open>
  def restart_opencode(port=None, log_path=None, cwd=None):
      port = port or _parse_port_from_base_url(get_base_url())
      if port == 80:
          port = DEFAULT_PORT
      if not _kill_port_process(port):
          return False, ...
      time.sleep(1)
      ok, msg = start_opencode(port=port, log_path=log_path, cwd=cwd)
      if not ok:
          return False, msg
      for _ in range(15):
          time.sleep(1)
          if is_opencode_healthy():
              return True, ...
      return False, ...
  \<close>
\<close>

definition restart_opencode ::
  "'w env \<Rightarrow> int option \<Rightarrow> string option \<Rightarrow> string option \<Rightarrow> 'w state \<Rightarrow>
   (exn + bool \<times> string) \<times> 'w state" where
  "restart_opencode env port log_path cwd s =
     (let port1 = resolve_port env port
      in case kill_port_process env port1 s of
           (Inl e, s1) \<Rightarrow> (Inl e, s1)
         | (Inr killed, s1) \<Rightarrow>
             if \<not> killed then (Inr (False, msg_cannot_kill port1), s1)
             else
               (case start_opencode env (Some port1) None log_path cwd (do_sleep env 1 s1) of
                  (Inl e, s2) \<Rightarrow> (Inl e, s2)
                | (Inr (ok, msg), s2) \<Rightarrow>
                    if \<not> ok then (Inr (False, msg), s2)
                    else
                      (case wait_healthy env 15 s2 of
                         (h, s3) \<Rightarrow>
                           if h then (Inr (True, msg_restarted msg), s3)
                           else (Inr (False, msg_started_unhealthy msg), s3))))"

definition msg_running :: string where
  "msg_running = ''OpenCode [is already running]''"

definition msg_occupied :: "int \<Rightarrow> int option \<Rightarrow> string option \<Rightarrow> string" where
  "msg_occupied port pid cmd =
     ''[port] '' @ py_str_int port @ '' [is occupied] (pid='' @
     (case pid of None \<Rightarrow> ''None'' | Some i \<Rightarrow> py_str_int i) @ '', '' @ str_or cmd ''?'' @
     '')[, but not by OpenCode]''"

definition msg_unhealthy_retry :: string where
  "msg_unhealthy_retry = ''[started but the health check did not pass, retry later]''"

text \<open>
  \<^verbatim>\<open>
  def ensure_opencode_running(port=None, log_path=None, cwd=None):
      if is_opencode_healthy():
          return True, ...
      port = port or _parse_port_from_base_url(get_base_url())
      if port == 80:
          port = DEFAULT_PORT
      in_use, pid, cmd = check_port(port)
      if in_use and not is_opencode_healthy():
          return False, ...
      if in_use:
          return True, ...
      ok, msg = start_opencode(port=port, log_path=log_path, cwd=cwd)
      if not ok:
          return False, msg
      for _ in range(10):
          time.sleep(1)
          if is_opencode_healthy():
              return True, msg
      return False, ...
  \<close>
\<close>

definition ensure_opencode_running ::
  "'w env \<Rightarrow> int option \<Rightarrow> string option \<Rightarrow> string option \<Rightarrow> 'w state \<Rightarrow>
   (exn + bool \<times> string) \<times> 'w state" where
  "ensure_opencode_running env port log_path cwd s =
     (case is_opencode_healthy env s of
        (h, s1) \<Rightarrow>
          if h then (Inr (True, msg_running), s1)
          else
            (let port1 = resolve_port env port
             in case check_port env port1 s1 of
                  (Inl e, s2) \<Rightarrow> (Inl e, s2)
                | (Inr (in_use, pid, cmd), s2) \<Rightarrow>
                    if in_use then
                      (case is_opencode_healthy env s2 of
                         (h2, s3) \<Rightarrow>
                           if \<not> h2 then (Inr (False, msg_occupied port1 pid cmd), s3)
                           else (Inr (True, msg_running), s3))
                    else
                      (case start_opencode env (Some port1) None log_path cwd s2 of
                         (Inl e, s3) \<Rightarrow> (Inl e, s3)
                       | (Inr (ok, msg), s3) \<Rightarrow>
                           if \<not> ok then (Inr (False, msg), s3)
                           else
                             (case wait_healthy env 10 s3 of
                                (h3, s4) \<Rightarrow>
                                  if h3 then (Inr (True, msg), s4)
                                  else (Inr (False, msg_unhealthy_retry), s4)))))"

section \<open>bot\_core: the current session\<close>

text \<open>
  \<^verbatim>\<open>
  async def get_or_create_session():
      global current_session_id
      if current_session_id:
          try:
              sessions = await opencode.list_sessions()
              ids = [s.get("id") for s in (sessions or []) if s.get("id")]
              if current_session_id in ids:
                  return current_session_id
          except Exception:
              pass
          current_session_id = None
      sessions = await opencode.list_sessions()
      if not sessions:
          session = await opencode.create_session()
          current_session_id = session["id"]
      else:
          current_session_id = sessions[0]["id"]
      return current_session_id
  \<close>
  \<open>session_ids\<close> is the comprehension; \<open>verify_current_session\<close> is the first \<^verbatim>\<open>if\<close>,
  with \<open>True\<close> when it returned the current id.
\<close>

fun ids_of :: "json list \<Rightarrow> exn + json list" where
  "ids_of [] = Inr []"
| "ids_of (x # xs) =
     (case py_get x ''id'' of
        Inl e \<Rightarrow> Inl e
      | Inr i \<Rightarrow>
          (case ids_of xs of
             Inl e \<Rightarrow> Inl e
           | Inr rest \<Rightarrow> Inr (if py_truthy i then i # rest else rest)))"

definition session_ids :: "json \<Rightarrow> exn + json list" where
  "session_ids sessions =
     (case py_iter (py_or sessions (JArr [])) of Inl e \<Rightarrow> Inl e | Inr xs \<Rightarrow> ids_of xs)"

definition verify_current_session :: "'w env \<Rightarrow> 'w state \<Rightarrow> bool \<times> 'w state" where
  "verify_current_session env s =
     (if py_truthy (current_session_id s) then
        (case list_sessions env s of
           (Inl e, s1) \<Rightarrow> (False, s1\<lparr>current_session_id := JNull\<rparr>)
         | (Inr sessions, s1) \<Rightarrow>
             (case session_ids sessions of
                Inl e \<Rightarrow> (False, s1\<lparr>current_session_id := JNull\<rparr>)
              | Inr ids \<Rightarrow>
                  if list_ex (py_eq (current_session_id s1)) ids then (True, s1)
                  else (False, s1\<lparr>current_session_id := JNull\<rparr>)))
      else (False, s))"

definition get_or_create_session :: "'w env \<Rightarrow> 'w state \<Rightarrow> (exn + json) \<times> 'w state" where
  "get_or_create_session env s =
     (case verify_current_session env s of
        (found, s1) \<Rightarrow>
          if found then (Inr (current_session_id s1), s1)
          else
            (case list_sessions env s1 of
               (Inl e, s2) \<Rightarrow> (Inl e, s2)
             | (Inr sessions, s2) \<Rightarrow>
                 if \<not> py_truthy sessions then
                   (case create_session env None s2 of
                      (Inl e, s3) \<Rightarrow> (Inl e, s3)
                    | (Inr session, s3) \<Rightarrow>
                        (case py_item_str session ''id'' of
                           Inl e \<Rightarrow> (Inl e, s3)
                         | Inr i \<Rightarrow> (Inr i, s3\<lparr>current_session_id := i\<rparr>)))
                 else
                   (case py_item_int sessions 0 of
                      Inl e \<Rightarrow> (Inl e, s2)
                    | Inr first \<Rightarrow>
                        (case py_item_str first ''id'' of
                           Inl e \<Rightarrow> (Inl e, s2)
                         | Inr i \<Rightarrow> (Inr i, s2\<lparr>current_session_id := i\<rparr>)))))"

definition switch_session :: "string \<Rightarrow> 'w state \<Rightarrow> 'w state" where
  "switch_session session_id s = s\<lparr>current_session_id := JStr session_id\<rparr>"

definition set_last_opencode_cwd :: "string \<Rightarrow> 'w state \<Rightarrow> 'w state" where
  "set_last_opencode_cwd cwd s = s\<lparr>last_opencode_cwd := Some cwd\<rparr>"

definition msg_switched_new :: string where
  "msg_switched_new = ''[switched to a new session.]''"

definition msg_create_failed :: "exn \<Rightarrow> string" where
  "msg_create_failed e = ''[creating the session failed]: '' @ str_exn e"

definition handle_new_session :: "'w env \<Rightarrow> 'w state \<Rightarrow> string \<times> 'w state" where
  "handle_new_session env s =
     (case create_session env None s of
        (Inl e, s1) \<Rightarrow> (msg_create_failed e, s1)
      | (Inr session, s1) \<Rightarrow>
          (case py_item_str session ''id'' of
             Inl e \<Rightarrow> (msg_create_failed e, s1)
           | Inr i \<Rightarrow> (msg_switched_new, s1\<lparr>current_session_id := i\<rparr>)))"

section \<open>bot\_core: start and restart\<close>

definition handle_start_opencode ::
  "'w env \<Rightarrow> string \<Rightarrow> 'w state \<Rightarrow> (exn + bool \<times> string) \<times> 'w state" where
  "handle_start_opencode env log_path s =
     (case ensure_opencode_running env None (Some log_path) None s of
        (Inl e, s1) \<Rightarrow> (Inl e, s1)
      | (Inr (ok, msg), s1) \<Rightarrow>
          (Inr (ok, msg),
           if ok \<and> last_opencode_cwd s1 = None
           then s1\<lparr>last_opencode_cwd := Some (default_cwd env s1)\<rparr> else s1))"

text \<open>
  The sort of \<^verbatim>\<open>handle_restart_opencode\<close>:
  \<^verbatim>\<open>
      def sort_key(s):
          t = s.get("time") or ""
          return (1 if t else 0, t)
      sessions = sorted(sessions, key=sort_key, reverse=True)
  \<close>
  \<open>key_lt\<close> is \<^verbatim>\<open><\<close> on two such pairs: the first components decide unless they are
  equal. \<^verbatim>\<open>sorted\<close> computes every key first, and with \<^verbatim>\<open>reverse=True\<close> returns the
  items in descending order of their keys, items with equal keys in their original order;
  \<open>sort_desc\<close> is the stable insertion sort with this result. An exception of a
  comparison leaves the sort. (Where two keys cannot be compared, the interpreter's
  algorithm may make other comparisons than the insertion sort; where every two keys can
  be compared, every stable sort returns the same list.)
\<close>

definition sort_key :: "json \<Rightarrow> exn + nat \<times> json" where
  "sort_key s =
     (case py_get s ''time'' of
        Inl e \<Rightarrow> Inl e
      | Inr v \<Rightarrow> (let t = py_or v (JStr []) in Inr (if py_truthy t then 1 else 0, t)))"

definition key_lt :: "nat \<times> json \<Rightarrow> nat \<times> json \<Rightarrow> exn + bool" where
  "key_lt a b =
     (if fst a \<noteq> fst b then Inr (fst a < fst b)
      else if py_eq (snd a) (snd b) then Inr False
      else py_lt (snd a) (snd b))"

fun keyed :: "json list \<Rightarrow> exn + ((nat \<times> json) \<times> json) list" where
  "keyed [] = Inr []"
| "keyed (x # xs) =
     (case sort_key x of
        Inl e \<Rightarrow> Inl e
      | Inr k \<Rightarrow> (case keyed xs of Inl e \<Rightarrow> Inl e | Inr ks \<Rightarrow> Inr ((k, x) # ks)))"

fun insert_desc ::
  "(nat \<times> json) \<times> json \<Rightarrow> ((nat \<times> json) \<times> json) list \<Rightarrow> exn + ((nat \<times> json) \<times> json) list" where
  "insert_desc x [] = Inr [x]"
| "insert_desc x (y # ys) =
     (case key_lt (fst x) (fst y) of
        Inl e \<Rightarrow> Inl e
      | Inr lt \<Rightarrow>
          if lt then (case insert_desc x ys of Inl e \<Rightarrow> Inl e | Inr zs \<Rightarrow> Inr (y # zs))
          else Inr (x # y # ys))"

fun sort_desc :: "((nat \<times> json) \<times> json) list \<Rightarrow> exn + ((nat \<times> json) \<times> json) list" where
  "sort_desc [] = Inr []"
| "sort_desc (x # xs) =
     (case sort_desc xs of Inl e \<Rightarrow> Inl e | Inr ys \<Rightarrow> insert_desc x ys)"

definition sorted_by_key_reverse :: "json list \<Rightarrow> exn + json list" where
  "sorted_by_key_reverse xs =
     (case keyed xs of
        Inl e \<Rightarrow> Inl e
      | Inr ks \<Rightarrow> (case sort_desc ks of Inl e \<Rightarrow> Inl e | Inr ys \<Rightarrow> Inr (map snd ys)))"

text \<open>
  The body of the \<^verbatim>\<open>try\<close> of \<^verbatim>\<open>handle_restart_opencode\<close> after the listing: \<open>Some\<close> of
  the value assigned to \<^verbatim>\<open>current_session_id\<close>, \<open>None\<close> when the list is empty.
\<close>

definition most_recent_id :: "json \<Rightarrow> exn + json option" where
  "most_recent_id sessions =
     (if py_truthy sessions then
        (case py_iter sessions of
           Inl e \<Rightarrow> Inl e
         | Inr xs \<Rightarrow>
             (case sorted_by_key_reverse xs of
                Inl e \<Rightarrow> Inl e
              | Inr ys \<Rightarrow>
                  (case py_index ys 0 of
                     Inl e \<Rightarrow> Inl e
                   | Inr newest \<Rightarrow>
                       (case py_get newest ''id'' of Inl e \<Rightarrow> Inl e | Inr i \<Rightarrow> Inr (Some i)))))
      else Inr None)"

text \<open>
  \<^verbatim>\<open>
  async def handle_restart_opencode(log_path):
      global current_session_id, _last_opencode_cwd
      cwd = _last_opencode_cwd or runner._default_cwd()
      _last_opencode_cwd = cwd
      ok, msg = runner.restart_opencode(log_path=log_path, cwd=cwd)
      if not ok:
          return ok, msg
      current_session_id = None
      try:
          sessions = await opencode.list_sessions()
          if sessions:
              ...
              sessions = sorted(sessions, key=sort_key, reverse=True)
              current_session_id = sessions[0].get("id")
      except Exception:
          pass
      return ok, msg
  \<close>
\<close>

definition handle_restart_opencode ::
  "'w env \<Rightarrow> string \<Rightarrow> 'w state \<Rightarrow> (exn + bool \<times> string) \<times> 'w state" where
  "handle_restart_opencode env log_path s =
     (let cwd = str_or (last_opencode_cwd s) (default_cwd env s)
      in case restart_opencode env None (Some log_path) (Some cwd) (s\<lparr>last_opencode_cwd := Some cwd\<rparr>) of
           (Inl e, s1) \<Rightarrow> (Inl e, s1)
         | (Inr (ok, msg), s1) \<Rightarrow>
             if \<not> ok then (Inr (ok, msg), s1)
             else
               (case list_sessions env (s1\<lparr>current_session_id := JNull\<rparr>) of
                  (Inl e, s2) \<Rightarrow> (Inr (ok, msg), s2)
                | (Inr sessions, s2) \<Rightarrow>
                    (case most_recent_id sessions of
                       Inr (Some i) \<Rightarrow> (Inr (ok, msg), s2\<lparr>current_session_id := i\<rparr>)
                     | _ \<Rightarrow> (Inr (ok, msg), s2))))"

section \<open>bot\_core: handle\_message\<close>

definition msg_timeout :: string where
  "msg_timeout =
     ''[request timed out (OpenCode may still be executing), retry later or send /session to look. The environment variable OPENCODE_MESSAGE_TIMEOUT (seconds) sets a longer timeout.]''"

definition msg_call_failed :: "exn \<Rightarrow> string" where
  "msg_call_failed e = ''[calling OpenCode failed]: '' @ str_exn e"

definition msg_no_text :: string where
  "msg_no_text = ''([no text result])''"

text \<open>
  \<^verbatim>\<open>
  async def handle_message(text):
      try:
          session_id = await get_or_create_session()
          result = await opencode.send_message(session_id, text)
      except httpx.TimeoutException:
          return "..."
      except httpx.HTTPStatusError as e:
          if e.response.status_code == 404:
              global current_session_id
              current_session_id = None
              try:
                  session_id = await get_or_create_session()
                  result = await opencode.send_message(session_id, text)
              except Exception as retry_e:
                  return f"...: {retry_e}"
              if not result:
                  return "(...)"
              return result
          return f"...: {e}"
      except Exception as e:
          return f"...: {e}"
      if not result:
          return "(...)"
      return result
  \<close>
  \<open>deliver\<close> is the pair of statements of both \<^verbatim>\<open>try\<close> blocks, \<open>render_result\<close> the two
  statements that end both paths, \<open>retry_once\<close> the branch for status 404 and
  \<open>handle_failure\<close> the three handlers of the outer \<^verbatim>\<open>try\<close>.
\<close>

definition deliver ::
  "'w env \<Rightarrow> string \<Rightarrow> 'w state \<Rightarrow> ((exn + string) \<times> 'w state) option" where
  "deliver env txt s =
     (case get_or_create_session env s of
        (Inl e, s1) \<Rightarrow> Some (Inl e, s1)
      | (Inr session_id, s1) \<Rightarrow> send_message env session_id txt s1)"

definition render_result :: "string \<Rightarrow> string" where
  "render_result result = (if result = [] then msg_no_text else result)"

definition retry_once :: "'w env \<Rightarrow> string \<Rightarrow> 'w state \<Rightarrow> (string \<times> 'w state) option" where
  "retry_once env txt s =
     (case deliver env txt (s\<lparr>current_session_id := JNull\<rparr>) of
        None \<Rightarrow> None
      | Some (Inl retry_e, s1) \<Rightarrow> Some (msg_call_failed retry_e, s1)
      | Some (Inr result, s1) \<Rightarrow> Some (render_result result, s1))"

definition handle_failure ::
  "'w env \<Rightarrow> string \<Rightarrow> exn \<Rightarrow> 'w state \<Rightarrow> (string \<times> 'w state) option" where
  "handle_failure env txt e s =
     (case e of
        TimeoutException m \<Rightarrow> Some (msg_timeout, s)
      | HTTPStatusError code m \<Rightarrow>
          if code = 404 then retry_once env txt s else Some (msg_call_failed e, s)
      | _ \<Rightarrow> Some (msg_call_failed e, s))"

definition handle_message :: "'w env \<Rightarrow> string \<Rightarrow> 'w state \<Rightarrow> (string \<times> 'w state) option" where
  "handle_message env txt s =
     (case deliver env txt s of
        None \<Rightarrow> None
      | Some (Inl e, s1) \<Rightarrow> handle_failure env txt e s1
      | Some (Inr result, s1) \<Rightarrow> Some (render_result result, s1))"

section \<open>Notions of the specification\<close>



text \<open>
  A message part is an object; it is a text part when its type is \<^verbatim>\<open>"text"\<close> and it
  carries a text.
\<close>

definition is_obj :: "json \<Rightarrow> bool" where
  "is_obj v = (case v of JObj kvs \<Rightarrow> True | _ \<Rightarrow> False)"

definition obj_field :: "json \<Rightarrow> string \<Rightarrow> json option" where
  "obj_field v k = (case v of JObj kvs \<Rightarrow> map_of kvs k | _ \<Rightarrow> None)"




text \<open>The effects of a kind in a trace.\<close>

definition spawns :: "('w, 'x) state_scheme \<Rightarrow> event list" where
  "spawns s = filter (\<lambda>ev. case ev of Popen a \<Rightarrow> True | _ \<Rightarrow> False) (trace s)"

definition kills :: "('w, 'x) state_scheme \<Rightarrow> event list" where
  "kills s = filter (\<lambda>ev. case ev of Kill pid sig \<Rightarrow> True | _ \<Rightarrow> False) (trace s)"

definition sleeps :: "('w, 'x) state_scheme \<Rightarrow> event list" where
  "sleeps s = filter (\<lambda>ev. case ev of Sleep d \<Rightarrow> True | _ \<Rightarrow> False) (trace s)"

text \<open>
  The session list of the backend has an id: the listing succeeds and the id is among the
  (non-empty) ids of its entries. \<open>pointer_listed\<close> is the invariant of the
  specification: a non-empty current session id is one the backend lists now.
\<close>

definition listing_has :: "exn + json \<Rightarrow> json \<Rightarrow> bool" where
  "listing_has r sid =
     (case r of
        Inl e \<Rightarrow> False
      | Inr sessions \<Rightarrow>
          (case session_ids sessions of Inl e \<Rightarrow> False | Inr ids \<Rightarrow> list_ex (py_eq sid) ids))"

definition listed_now :: "'w env \<Rightarrow> 'w state \<Rightarrow> json \<Rightarrow> bool" where
  "listed_now env s sid = listing_has (fst (list_sessions env s)) sid"

definition pointer_listed :: "'w env \<Rightarrow> 'w state \<Rightarrow> bool" where
  "pointer_listed env s =
     (py_truthy (current_session_id s) \<longrightarrow> listed_now env s (current_session_id s))"

definition first_listed_id :: "json \<Rightarrow> exn + json" where
  "first_listed_id sessions =
     (case py_item_int sessions 0 of Inl e \<Rightarrow> Inl e | Inr first \<Rightarrow> py_item_str first ''id'')"

text \<open>
  The health polls after a start: poll number \<open>k\<close> (from 0) sleeps one second and probes
  the health once, in the state that the polls before it left.
\<close>

definition poll_step :: "'w env \<Rightarrow> 'w state \<Rightarrow> 'w state" where
  "poll_step env s = snd (is_opencode_healthy env (do_sleep env 1 s))"

definition poll_state :: "'w env \<Rightarrow> nat \<Rightarrow> 'w state \<Rightarrow> 'w state" where
  "poll_state env k s = (poll_step env ^^ k) s"

definition poll_healthy :: "'w env \<Rightarrow> nat \<Rightarrow> 'w state \<Rightarrow> bool" where
  "poll_healthy env k s = fst (is_opencode_healthy env (do_sleep env 1 (poll_state env k s)))"

text \<open>
  The effects of a successful \<open>start_opencode\<close>, in order: the working directory is
  created if absent, the log is opened to append, the backend is started detached in the
  working directory, the log is closed.
\<close>

definition work_dir_of :: "'w env \<Rightarrow> string option \<Rightarrow> 'w state \<Rightarrow> string" where
  "work_dir_of env cwd s =
     (if str_truthy cwd then abspath env (expanduser env (str_or cwd [])) else default_cwd env s)"

definition spawn_events ::
  "'w env \<Rightarrow> int \<Rightarrow> string \<Rightarrow> string option \<Rightarrow> string option \<Rightarrow> 'w state \<Rightarrow> event list" where
  "spawn_events env port1 hostname1 log_path cwd s =
     [Makedirs (work_dir_of env cwd s)] @
     (if str_truthy log_path then [OpenAppend (str_or log_path [])] else []) @
     [Popen \<lparr>p_args = OPENCODE_SERVE_CMD @ [''--port'', py_str_int port1, ''--hostname'', hostname1],
             p_log = (if str_truthy log_path then log_path else None),
             p_start_new_session = True, p_cwd = work_dir_of env cwd s\<rparr>] @
     (if str_truthy log_path then [CloseFile (str_or log_path [])] else [])"

section \<open>A scripted environment\<close>

text \<open>
  An environment for concrete runs: the backend answers the HTTP requests from a script,
  in order (and refuses the connection once the script is exhausted); the port probe
  follows a script of its own; sleeping advances the clock; the decoder knows the few
  bodies of the scripts.
\<close>

record sim =
  sim_clock :: rat
  sim_http :: "(exn + response) list"
  sim_connect :: "bool list"
  sim_owner :: "int option"
  sim_kill :: "exn option"

definition body_healthy :: string where
  \<open>body_healthy = ''{"healthy": true}''\<close>

definition body_empty_list :: string where
  "body_empty_list = ''[]''"

definition body_empty_object :: string where
  "body_empty_object = ''{}''"

definition body_session_s1 :: string where
  \<open>body_session_s1 = ''[{"id": "s1"}]''\<close>

definition body_created_s2 :: string where
  \<open>body_created_s2 = ''{"id": "s2"}''\<close>

definition body_sessions_timed :: string where
  \<open>body_sessions_timed = ''[{"id": "a"}, {"id": "b", "time": 5}, {"id": "c", "time": 7}]''\<close>

definition body_answer :: string where
  \<open>body_answer = ''{"parts": [{"type": "text", "text": "done"}]}''\<close>

definition body_two_messages :: string where
  \<open>body_two_messages = ''[{"parts": []}, {"parts": [{"type": "text", "text": "done"}]}]''\<close>

definition body_html :: string where
  "body_html = ''<html>''"

definition sim_table :: "(string \<times> json) list" where
  "sim_table =
     [(body_healthy, JObj [(''healthy'', JBool True)]),
      (body_empty_list, JArr []),
      (body_empty_object, JObj []),
      (body_session_s1, JArr [JObj [(''id'', JStr ''s1'')]]),
      (body_created_s2, JObj [(''id'', JStr ''s2'')]),
      (body_sessions_timed,
         JArr [JObj [(''id'', JStr ''a'')],
               JObj [(''id'', JStr ''b''), (''time'', JNum 5)],
               JObj [(''id'', JStr ''c''), (''time'', JNum 7)]]),
      (body_answer, JObj [(''parts'', JArr [JObj [(''type'', JStr ''text''), (''text'', JStr ''done'')]])]),
      (body_two_messages,
         JArr [JObj [(''parts'', JArr [])],
               JObj [(''parts'', JArr [JObj [(''type'', JStr ''text''), (''text'', JStr ''done'')]])]])]"

definition sim_loads :: "string \<Rightarrow> exn + json" where
  "sim_loads t =
     (case map_of sim_table t of
        Some v \<Rightarrow> Inr v
      | None \<Rightarrow> Inl (JSONDecodeError ''Expecting value''))"

definition sim_env :: "(string \<Rightarrow> string option) \<Rightarrow> sim env" where
  "sim_env vars =
     \<lparr>environ = vars,
      json_loads = sim_loads,
      float_of_str = (\<lambda>t. None),
      expanduser = (\<lambda>p. p),
      abspath = (\<lambda>p. p),
      today_ymd = (\<lambda>w. ''2024-01-01''),
      monotonic = sim_clock,
      http_send = (\<lambda>rq w. case sim_http w of
                     [] \<Rightarrow> (Inl (TransportError ''connection refused''), w)
                   | r # rs \<Rightarrow> (r, w\<lparr>sim_http := rs\<rparr>)),
      socket_connect = (\<lambda>host port w. case sim_connect w of
                     [] \<Rightarrow> (Inl (OSError ''connection refused''), w)
                   | b # bs \<Rightarrow> (if b then Inr () else Inl (OSError ''connection refused''),
                                w\<lparr>sim_connect := bs\<rparr>)),
      get_process_on_port = (\<lambda>port w. (Inr (sim_owner w, None), w)),
      os_kill = (\<lambda>pid sig w. (case sim_kill w of None \<Rightarrow> Inr () | Some e \<Rightarrow> Inl e, w)),
      time_sleep = (\<lambda>d w. w\<lparr>sim_clock := sim_clock w + d\<rparr>),
      os_makedirs = (\<lambda>path w. (Inr (), w)),
      open_append = (\<lambda>path w. (Inr (), w)),
      close_file = (\<lambda>path w. (Inr (), w)),
      subprocess_Popen = (\<lambda>a w. (Inr 4242, w))\<rparr>"

definition ok_response :: "string \<Rightarrow> exn + response" where
  "ok_response b = Inr \<lparr>status_code = 200, body = b\<rparr>"

definition status_response :: "int \<Rightarrow> exn + response" where
  "status_response code = Inr \<lparr>status_code = code, body = []\<rparr>"

definition sim_world :: "(exn + response) list \<Rightarrow> bool list \<Rightarrow> sim" where
  "sim_world replies probes =
     \<lparr>sim_clock = 0, sim_http = replies, sim_connect = probes, sim_owner = Some 77,
      sim_kill = None\<rparr>"

definition sim_state :: "sim \<Rightarrow> json \<Rightarrow> sim state" where
  "sim_state w cur =
     \<lparr>world = w, trace = [], current_session_id = cur, last_opencode_cwd = None\<rparr>"

definition env_plain :: "sim env" where
  "env_plain = sim_env Map.empty"



text \<open>Scenarios for the current session and for \<open>handle_message\<close>.\<close>

definition st_known :: "sim state" where
  "st_known = sim_state (sim_world [ok_response body_session_s1] []) (JStr ''s1'')"

definition st_stale :: "sim state" where
  "st_stale =
     sim_state (sim_world [ok_response body_session_s1, ok_response body_session_s1] [])
       (JStr ''ghost'')"

definition st_quiet :: "sim state" where
  "st_quiet = sim_state (sim_world [ok_response body_empty_list] []) JNull"

definition st_retry_timeout :: "sim state" where
  "st_retry_timeout =
     sim_state (sim_world [ok_response body_session_s1, status_response 404,
                           ok_response body_session_s1, Inl (TimeoutException ''timed out'')] [])
       JNull"

definition st_first_timeout :: "sim state" where
  "st_first_timeout =
     sim_state (sim_world [ok_response body_session_s1, Inl (TimeoutException ''timed out'')] [])
       JNull"

text \<open>Scenarios for the supervisor.\<close>

definition sim_healthy_reply :: "exn + response \<Rightarrow> bool" where
  "sim_healthy_reply r =
     (case r of
        Inl e \<Rightarrow> False
      | Inr resp \<Rightarrow>
          status_code resp = 200 \<and>
          (case sim_loads (body resp) of
             Inl e \<Rightarrow> False
           | Inr d \<Rightarrow> py_get d ''healthy'' = Inr (JBool True)))"

definition st_up :: "sim state" where
  "st_up = sim_state (sim_world [ok_response body_healthy] []) JNull"

definition st_occupied :: "sim state" where
  "st_occupied = sim_state (sim_world [] [True]) JNull"

definition st_down :: "sim state" where
  "st_down =
     sim_state (sim_world [Inl (TransportError ''connection refused''), ok_response body_healthy] [])
       JNull"

definition st_never :: "sim state" where
  "st_never = sim_state (sim_world [] []) JNull"

section \<open>Properties of chunk\_text\<close>

lemma concat_windows:
  "concat (map (\<lambda>k. drop (k * s) (take (k * s + s) xs)) [0..<m]) = take (m * s) xs"
proof (induction m)
  case 0
  show ?case by simp
next
  case (Suc m)
  have "take (m * s) xs @ drop (m * s) (take (m * s + s) xs) = take (m * s + s) xs"
    by (metis append_take_drop_id le_add1 min.absorb1 take_take)
  with Suc show ?case by (simp add: add.commute)
qed

lemma py_slice_window:
  assumes "0 < sz"
  shows "py_slice xs (int k * sz) (int k * sz + sz) =
         drop (k * nat sz) (take (k * nat sz + nat sz) xs)"
proof -
  have a: "nat (int k * sz) = k * nat sz"
    using assms by (simp add: nat_mult_distrib)
  have b: "nat (int k * sz + sz) = k * nat sz + nat sz"
    using assms by (simp add: nat_add_distrib nat_mult_distrib)
  have "0 \<le> int k * sz"
    using assms by simp
  then have nn: "\<not> int k * sz < 0" "\<not> int k * sz + sz < 0"
    using assms by linarith+
  have "drop (nat (min (int k * sz) (int (length xs))))
          (take (nat (min (int k * sz + sz) (int (length xs)))) xs) =
        drop (nat (int k * sz)) (take (nat (int k * sz + sz)) xs)"
    using assms
    by (cases "int k * sz \<le> int (length xs)"; cases "int k * sz + sz \<le> int (length xs)")
       (simp_all add: min_def)
  then show ?thesis
    using nn by (simp add: py_slice_def Let_def a b)
qed

lemma chunk_text_long:
  assumes "0 < sz" and "\<not> int (length txt) \<le> sz"
  shows "chunk_text txt sz =
         Inr (map (\<lambda>k. drop (k * nat sz) (take (k * nat sz + nat sz) txt))
                [0..<nat ((int (length txt) + sz - 1) div sz)])"
  using assms by (simp add: chunk_text_def py_range_def py_slice_window o_def)

text \<open>
  C9. For every text and every positive size, the chunks of \<open>chunk_text\<close> concatenate to
  the text, in order, and none is longer than the size; the empty text has no chunk,
  whatever the size.
\<close>

theorem chunk_text_partition:
  "(0 < sz \<longrightarrow>
      (\<exists>cs. chunk_text txt sz = Inr cs \<and> concat cs = txt \<and>
            (\<forall>c \<in> set cs. int (length c) \<le> sz))) \<and>
   chunk_text [] sz' = Inr []"
proof (intro conjI impI)
  assume pos: "0 < sz"
  show "\<exists>cs. chunk_text txt sz = Inr cs \<and> concat cs = txt \<and>
            (\<forall>c \<in> set cs. int (length c) \<le> sz)"
  proof (cases "int (length txt) \<le> sz")
    case True
    then show ?thesis by (simp add: chunk_text_def)
  next
    case False
    define m where "m = nat ((int (length txt) + sz - 1) div sz)"
    define s where "s = nat sz"
    have s: "0 < s" "int s = sz" using pos by (simp_all add: s_def)
    have "int (length txt) \<le> ((int (length txt) + sz - 1) div sz) * sz"
    proof -
      have "(int (length txt) + sz - 1) mod sz \<le> sz - 1"
        using pos pos_mod_bound [of sz "int (length txt) + sz - 1"] by simp
      moreover have "((int (length txt) + sz - 1) div sz) * sz =
          (int (length txt) + sz - 1) - (int (length txt) + sz - 1) mod sz"
        by (simp add: algebra_simps minus_mod_eq_mult_div)
      ultimately show ?thesis by simp
    qed
    moreover have "0 \<le> (int (length txt) + sz - 1) div sz"
      using pos by (simp add: pos_imp_zdiv_nonneg_iff)
    ultimately have "int (length txt) \<le> int m * int s"
      by (simp add: m_def s)
    then have cover: "length txt \<le> m * s"
      by (metis of_nat_le_iff of_nat_mult)
    have eq: "chunk_text txt sz =
        Inr (map (\<lambda>k. drop (k * s) (take (k * s + s) txt)) [0..<m])"
      using chunk_text_long [OF pos False] by (simp add: m_def s_def)
    have "concat (map (\<lambda>k. drop (k * s) (take (k * s + s) txt)) [0..<m]) = txt"
      using cover by (simp add: concat_windows)
    moreover have "\<forall>c \<in> set (map (\<lambda>k. drop (k * s) (take (k * s + s) txt)) [0..<m]).
        int (length c) \<le> sz"
      using s by auto
    ultimately show ?thesis using eq by blast
  qed
next
  show "chunk_text [] sz' = Inr []"
    by (simp add: chunk_text_def py_range_def)
qed

theorem chunk_text_partition_witness:
  "(0::int) < 2 \<and> chunk_text ''abcde'' 2 = Inr [''ab'', ''cd'', ''e''] \<and>
   concat [''ab'', ''cd'', ''e''] = ''abcde'' \<and> chunk_text [] 2 = Inr []"
proof -
  have e: "chunk_text ''abcde'' 2 = Inr [''ab'', ''cd'', ''e'']"
    by (simp add: chunk_text_def py_range_def py_slice_def upt_rec)
  from chunk_text_partition [of 2 "''abcde''" 2] e show ?thesis by simp
qed

section \<open>Facts about the scripted environment\<close>

lemma sim_env_sel:
  "environ (sim_env vars) = vars"
  "json_loads (sim_env vars) = sim_loads"
  "float_of_str (sim_env vars) = (\<lambda>t. None)"
  "expanduser (sim_env vars) = (\<lambda>p. p)"
  "abspath (sim_env vars) = (\<lambda>p. p)"
  "today_ymd (sim_env vars) = (\<lambda>w. ''2024-01-01'')"
  "monotonic (sim_env vars) = sim_clock"
  "http_send (sim_env vars) =
     (\<lambda>rq w. case sim_http w of
                [] \<Rightarrow> (Inl (TransportError ''connection refused''), w)
              | r # rs \<Rightarrow> (r, w\<lparr>sim_http := rs\<rparr>))"
  "socket_connect (sim_env vars) =
     (\<lambda>host port w. case sim_connect w of
                [] \<Rightarrow> (Inl (OSError ''connection refused''), w)
              | b # bs \<Rightarrow> (if b then Inr () else Inl (OSError ''connection refused''),
                           w\<lparr>sim_connect := bs\<rparr>))"
  "get_process_on_port (sim_env vars) = (\<lambda>port w. (Inr (sim_owner w, None), w))"
  "os_kill (sim_env vars) =
     (\<lambda>pid sig w. (case sim_kill w of None \<Rightarrow> Inr () | Some e \<Rightarrow> Inl e, w))"
  "time_sleep (sim_env vars) = (\<lambda>d w. w\<lparr>sim_clock := sim_clock w + d\<rparr>)"
  "os_makedirs (sim_env vars) = (\<lambda>path w. (Inr (), w))"
  "open_append (sim_env vars) = (\<lambda>path w. (Inr (), w))"
  "close_file (sim_env vars) = (\<lambda>path w. (Inr (), w))"
  "subprocess_Popen (sim_env vars) = (\<lambda>a w. (Inr 4242, w))"
  by (simp_all add: sim_env_def)

lemmas body_defs =
  body_healthy_def body_empty_list_def body_empty_object_def body_session_s1_def
  body_created_s2_def body_sessions_timed_def body_answer_def body_two_messages_def
  body_html_def

lemma sim_loads_simps:
  "sim_loads body_healthy = Inr (JObj [(''healthy'', JBool True)])"
  "sim_loads body_empty_list = Inr (JArr [])"
  "sim_loads body_empty_object = Inr (JObj [])"
  "sim_loads body_session_s1 = Inr (JArr [JObj [(''id'', JStr ''s1'')]])"
  "sim_loads body_created_s2 = Inr (JObj [(''id'', JStr ''s2'')])"
  "sim_loads body_sessions_timed =
     Inr (JArr [JObj [(''id'', JStr ''a'')],
               JObj [(''id'', JStr ''b''), (''time'', JNum 5)],
               JObj [(''id'', JStr ''c''), (''time'', JNum 7)]])"
  "sim_loads body_answer =
     Inr (JObj [(''parts'', JArr [JObj [(''type'', JStr ''text''), (''text'', JStr ''done'')]])])"
  "sim_loads body_two_messages =
     Inr (JArr [JObj [(''parts'', JArr [])],
               JObj [(''parts'', JArr [JObj [(''type'', JStr ''text''), (''text'', JStr ''done'')]])]])"
  "sim_loads body_html = Inl (JSONDecodeError ''Expecting value'')"
  by (simp_all add: sim_loads_def sim_table_def body_defs)

lemma strip_bodies:
  "py_strip body_healthy = body_healthy"
  "py_strip body_empty_list = body_empty_list"
  "py_strip body_empty_object = body_empty_object"
  "py_strip body_session_s1 = body_session_s1"
  "py_strip body_created_s2 = body_created_s2"
  "py_strip body_sessions_timed = body_sessions_timed"
  "py_strip body_answer = body_answer"
  "py_strip body_two_messages = body_two_messages"
  "py_strip body_html = body_html"
  by (simp_all add: py_strip_def py_lstrip_def py_rstrip_def py_isspace_def body_defs)

lemma bodies_nonempty:
  "body_healthy \<noteq> []" "body_empty_list \<noteq> []" "body_empty_object \<noteq> []"
  "body_session_s1 \<noteq> []" "body_created_s2 \<noteq> []" "body_sessions_timed \<noteq> []"
  "body_answer \<noteq> []" "body_two_messages \<noteq> []" "body_html \<noteq> []"
  by (simp_all add: body_defs)

lemma parse_json_sim:
  "b \<in> {body_healthy, body_empty_list, body_empty_object, body_session_s1, body_created_s2,
        body_sessions_timed, body_answer, body_two_messages} \<Longrightarrow>
   parse_json (sim_env vars) \<lparr>status_code = 200, body = b\<rparr> = sim_loads b"
  by (auto simp: parse_json_def strip_bodies bodies_nonempty sim_env_sel sim_loads_simps)

lemma fetch_json_sim:
  "sim_http (world s) = Inr r # rs \<Longrightarrow>
   fetch_json (sim_env vars) rq s =
     (case raise_for_status r of
        Inl e \<Rightarrow> Inl e
      | Inr u \<Rightarrow> parse_json (sim_env vars) r,
      s\<lparr>world := (world s)\<lparr>sim_http := rs\<rparr>, trace := trace s @ [Http rq]\<rparr>)"
  by (simp add: fetch_json_def do_http_def effect_def sim_env_sel split: sum.splits)

section \<open>Properties of \_parse\_port\_from\_base\_url\<close>







lemma py_int_cases: "(\<exists>e. py_int s = Inl (ValueError e)) \<or> (\<exists>i. py_int s = Inr i)"
  by (simp add: py_int_def Let_def)










section \<open>Properties of \_extract\_final\_result\<close>






lemma extract_final_result_no_parts:
  assumes "is_obj data" and "obj_field data ''parts'' = None \<or> obj_field data ''parts'' = Some JNull"
  shows "extract_final_result data = Inr []"
proof -
  from assms(1) obtain kvs where d: "data = JObj kvs"
    by (auto simp: is_obj_def split: json.splits)
  from assms(2) show ?thesis
    by (auto simp: extract_final_result_def d obj_field_def py_or_def)
qed







section \<open>Properties of \_parse\_json\<close>

lemma parse_json_empty:
  "py_strip (body r) = [] \<Longrightarrow>
   parse_json env r = Inl (ValueError (msg_empty_body (status_code r) (client_get_base_url env)))"
  by (simp add: parse_json_def)

lemma parse_json_not_json:
  "py_strip (body r) \<noteq> [] \<Longrightarrow> json_loads env (py_strip (body r)) = Inl (JSONDecodeError e) \<Longrightarrow>
   parse_json env r = Inl (ValueError (msg_not_json (status_code r)
        (py_replace_char (CHR 0x0A) CHR '' '' (take 200 (py_strip (body r)))) e))"
  by (simp add: parse_json_def)

lemma parse_json_value:
  "parse_json env r = Inr v \<Longrightarrow>
   py_strip (body r) \<noteq> [] \<and> json_loads env (py_strip (body r)) = Inr v"
  by (auto simp: parse_json_def Let_def split: if_splits sum.splits exn.splits)

lemma sublist_fourth: "sublist x (a @ b @ c @ x)"
  unfolding sublist_def by (rule exI [of _ "a @ b @ c"], rule exI [of _ "[]"]) simp

lemma sublist_fourth_of_six: "sublist x (a @ b @ c @ x @ d @ e)"
  unfolding sublist_def by (rule exI [of _ "a @ b @ c"], rule exI [of _ "d @ e"]) simp

lemma sublist_sixth: "sublist x (a @ b @ c @ d @ e @ x)"
  unfolding sublist_def by (rule exI [of _ "a @ b @ c @ d @ e"], rule exI [of _ "[]"]) simp

lemma msg_empty_body_names:
  "sublist url (msg_empty_body status url) \<and> sublist (py_str_int status) (msg_empty_body status url)"
  unfolding msg_empty_body_def
  by (intro conjI sublist_fourth sublist_appendI)

lemma msg_not_json_names:
  "sublist (py_str_int status) (msg_not_json status preview err) \<and>
   sublist preview (msg_not_json status preview err) \<and>
   sublist err (msg_not_json status preview err)"
  unfolding msg_not_json_def
  by (intro conjI sublist_appendI sublist_fourth_of_six sublist_sixth)



text \<open>
  C8. On a body that is empty once stripped, \<open>parse_json\<close> raises a \<^verbatim>\<open>ValueError\<close> whose
  message holds the base URL of the backend (and the status); on a body that the decoder
  rejects, a \<^verbatim>\<open>ValueError\<close> whose message holds the status, a preview of at most 200
  characters of the body and the decoder's error; it returns a value only when the decoder
  returned that value for the body.
\<close>

theorem parse_json_contract:
  "(py_strip (body r) = [] \<longrightarrow>
      (\<exists>m. parse_json env r = Inl (ValueError m) \<and>
           sublist (client_get_base_url env) m \<and> sublist (py_str_int (status_code r)) m)) \<and>
   (py_strip (body r) \<noteq> [] \<and> json_loads env (py_strip (body r)) = Inl (JSONDecodeError e) \<longrightarrow>
      (\<exists>m preview. parse_json env r = Inl (ValueError m) \<and>
           preview = py_replace_char (CHR 0x0A) CHR '' '' (take 200 (py_strip (body r))) \<and>
           length preview \<le> 200 \<and>
           sublist (py_str_int (status_code r)) m \<and> sublist preview m \<and> sublist e m)) \<and>
   (parse_json env r = Inr v \<longrightarrow>
      py_strip (body r) \<noteq> [] \<and> json_loads env (py_strip (body r)) = Inr v)"
proof (intro conjI impI)
  assume "py_strip (body r) = []"
  then show "\<exists>m. parse_json env r = Inl (ValueError m) \<and>
      sublist (client_get_base_url env) m \<and> sublist (py_str_int (status_code r)) m"
    using msg_empty_body_names by (simp add: parse_json_empty)
next
  assume "py_strip (body r) \<noteq> [] \<and> json_loads env (py_strip (body r)) = Inl (JSONDecodeError e)"
  then have "parse_json env r = Inl (ValueError (msg_not_json (status_code r)
        (py_replace_char (CHR 0x0A) CHR '' '' (take 200 (py_strip (body r)))) e))"
    by (simp add: parse_json_not_json)
  moreover have "length (py_replace_char (CHR 0x0A) CHR '' '' (take 200 (py_strip (body r)))) \<le> 200"
    by (simp add: py_replace_char_def)
  ultimately show "\<exists>m preview. parse_json env r = Inl (ValueError m) \<and>
           preview = py_replace_char (CHR 0x0A) CHR '' '' (take 200 (py_strip (body r))) \<and>
           length preview \<le> 200 \<and>
           sublist (py_str_int (status_code r)) m \<and> sublist preview m \<and> sublist e m"
    using msg_not_json_names by blast
next
  assume "parse_json env r = Inr v"
  then show "py_strip (body r) \<noteq> []" "json_loads env (py_strip (body r)) = Inr v"
    using parse_json_value by blast+
qed

theorem parse_json_contract_witness:
  "py_strip (body \<lparr>status_code = 200, body = ''  ''\<rparr>) = [] \<and>
   (\<exists>m. parse_json env_plain \<lparr>status_code = 200, body = ''  ''\<rparr> = Inl (ValueError m) \<and>
        sublist (client_get_base_url env_plain) m) \<and>
   json_loads env_plain (py_strip (body \<lparr>status_code = 502, body = body_html\<rparr>)) =
     Inl (JSONDecodeError ''Expecting value'') \<and>
   (\<exists>m. parse_json env_plain \<lparr>status_code = 502, body = body_html\<rparr> = Inl (ValueError m) \<and>
        sublist (py_str_int 502) m \<and> sublist ''Expecting value'' m) \<and>
   parse_json env_plain \<lparr>status_code = 200, body = body_empty_list\<rparr> = Inr (JArr []) \<and>
   json_loads env_plain (py_strip body_empty_list) = Inr (JArr [])"
proof -
  have a: "py_strip (body \<lparr>status_code = 200, body = ''  ''\<rparr>) = []"
    by (simp add: py_strip_def py_lstrip_def py_rstrip_def py_isspace_def)
  have b: "py_strip (body \<lparr>status_code = 502, body = body_html\<rparr>) \<noteq> [] \<and>
      json_loads env_plain (py_strip (body \<lparr>status_code = 502, body = body_html\<rparr>)) =
        Inl (JSONDecodeError ''Expecting value'')"
    by (simp add: strip_bodies bodies_nonempty env_plain_def sim_env_sel sim_loads_simps)
  have c: "parse_json env_plain \<lparr>status_code = 200, body = body_empty_list\<rparr> = Inr (JArr [])"
    by (simp add: env_plain_def parse_json_sim sim_loads_simps)
  from parse_json_contract [of "\<lparr>status_code = 200, body = ''  ''\<rparr>" env_plain] a
  have 1: "\<exists>m. parse_json env_plain \<lparr>status_code = 200, body = ''  ''\<rparr> = Inl (ValueError m) \<and>
        sublist (client_get_base_url env_plain) m"
    by blast
  from parse_json_contract [of "\<lparr>status_code = 502, body = body_html\<rparr>" env_plain
      "''Expecting value''"] b
  have 2: "\<exists>m. parse_json env_plain \<lparr>status_code = 502, body = body_html\<rparr> = Inl (ValueError m) \<and>
        sublist (py_str_int 502) m \<and> sublist ''Expecting value'' m"
    by (simp add: response.simps) blast
  from parse_json_contract [of "\<lparr>status_code = 200, body = body_empty_list\<rparr>" env_plain _ "JArr []"] c
  have 3: "json_loads env_plain (py_strip body_empty_list) = Inr (JArr [])"
    by simp
  from a b 1 2 3 c show ?thesis by blast
qed

section \<open>Properties of the current session\<close>

lemma fetch_json_pointer: "current_session_id (snd (fetch_json env rq s)) = current_session_id s"
  by (simp add: fetch_json_def do_http_def effect_def split: prod.splits sum.splits)

lemma list_sessions_pointer: "current_session_id (snd (list_sessions env s)) = current_session_id s"
  by (simp add: list_sessions_def fetch_json_pointer)

lemma create_session_pointer: "current_session_id (snd (create_session env t s)) = current_session_id s"
  by (simp add: create_session_def fetch_json_pointer)

lemma verify_found:
  assumes "fst (verify_current_session env s)"
  shows "py_truthy (current_session_id s) \<and> listed_now env s (current_session_id s) \<and>
         snd (verify_current_session env s) = snd (list_sessions env s)"
proof -
  have p: "current_session_id (snd (list_sessions env s)) = current_session_id s"
    by (rule list_sessions_pointer)
  from assms show ?thesis
    using p
    by (auto simp: verify_current_session_def listed_now_def listing_has_def
        split: if_splits prod.splits sum.splits)
qed

lemma verify_not_found:
  assumes "\<not> fst (verify_current_session env s)"
  shows "\<not> py_truthy (current_session_id (snd (verify_current_session env s))) \<and>
         (py_truthy (current_session_id s) \<longrightarrow>
            \<not> listed_now env s (current_session_id s) \<and>
            snd (verify_current_session env s) = (snd (list_sessions env s))\<lparr>current_session_id := JNull\<rparr>)"
proof -
  have p: "current_session_id (snd (list_sessions env s)) = current_session_id s"
    by (rule list_sessions_pointer)
  from assms show ?thesis
    using p
    by (auto simp: verify_current_session_def listed_now_def listing_has_def
        split: if_splits prod.splits sum.splits)
qed

lemma verify_iff:
  "fst (verify_current_session env s) =
     (py_truthy (current_session_id s) \<and> listed_now env s (current_session_id s))"
  using list_sessions_pointer [of env s]
  by (auto simp: verify_current_session_def listed_now_def listing_has_def
      split: if_splits prod.splits sum.splits)

lemma verify_idem:
  "\<not> py_truthy (current_session_id s) \<Longrightarrow> verify_current_session env s = (False, s)"
  by (simp add: verify_current_session_def)

lemma get_or_create_found:
  assumes "fst (verify_current_session env s)"
  shows "get_or_create_session env s =
     (Inr (current_session_id s), snd (verify_current_session env s))"
proof -
  define s1 where "s1 = snd (verify_current_session env s)"
  have v: "verify_current_session env s = (True, s1)"
    using assms by (simp add: s1_def prod_eq_iff)
  have "s1 = snd (list_sessions env s)"
    using verify_found [OF assms] by (simp add: s1_def)
  then have "current_session_id s1 = current_session_id s"
    by (simp add: list_sessions_pointer)
  then show ?thesis
    unfolding s1_def [symmetric] by (simp add: get_or_create_session_def v)
qed

lemma get_or_create_fallback:
  assumes "\<not> fst (verify_current_session env s)"
  shows "get_or_create_session env s =
     get_or_create_session env (snd (verify_current_session env s))"
proof -
  define s1 where "s1 = snd (verify_current_session env s)"
  have v: "verify_current_session env s = (False, s1)"
    using assms by (simp add: s1_def prod_eq_iff)
  have "\<not> py_truthy (current_session_id s1)"
    using verify_not_found [OF assms] by (simp add: s1_def)
  then have "verify_current_session env s1 = (False, s1)"
    by (rule verify_idem)
  then show ?thesis
    unfolding s1_def [symmetric] by (simp add: get_or_create_session_def v)
qed

lemma get_or_create_result:
  "(\<forall>sid. fst (get_or_create_session env s) = Inr sid \<longrightarrow>
       current_session_id (snd (get_or_create_session env s)) = sid) \<and>
   (\<forall>e. fst (get_or_create_session env s) = Inl e \<longrightarrow>
       \<not> py_truthy (current_session_id (snd (get_or_create_session env s))))"
proof (cases "fst (verify_current_session env s)")
  case True
  then show ?thesis
    using verify_found [of env s] list_sessions_pointer [of env s]
    by (simp add: get_or_create_found)
next
  case False
  define s1 where "s1 = snd (verify_current_session env s)"
  have f: "\<not> py_truthy (current_session_id s1)"
    using verify_not_found [OF False] by (simp add: s1_def)
  have v: "verify_current_session env s = (False, s1)"
    using False by (simp add: s1_def prod_eq_iff)
  have l: "current_session_id (snd (list_sessions env s1)) = current_session_id s1"
    by (rule list_sessions_pointer)
  have c: "\<And>t. current_session_id (snd (create_session env None t)) = current_session_id t"
    by (rule create_session_pointer)
  show ?thesis
    using f l c [of "snd (list_sessions env s1)"]
    by (auto simp: get_or_create_session_def v split: prod.splits sum.splits if_splits)
qed

lemma get_or_create_origin:
  assumes "\<not> fst (verify_current_session env s)"
    and "fst (get_or_create_session env s) = Inr sid"
  shows "\<exists>sessions. fst (list_sessions env (snd (verify_current_session env s))) = Inr sessions \<and>
     (if py_truthy sessions then first_listed_id sessions = Inr sid
      else (\<exists>session. fst (create_session env None
                (snd (list_sessions env (snd (verify_current_session env s))))) = Inr session \<and>
              py_item_str session ''id'' = Inr sid))"
proof -
  define s1 where "s1 = snd (verify_current_session env s)"
  have v: "verify_current_session env s = (False, s1)"
    using assms(1) by (simp add: s1_def prod_eq_iff)
  obtain r1 s2 where l: "list_sessions env s1 = (r1, s2)"
    by (cases "list_sessions env s1")
  obtain r2 s3 where c: "create_session env None s2 = (r2, s3)"
    by (cases "create_session env None s2")
  have g: "get_or_create_session env s =
      (case r1 of
         Inl e \<Rightarrow> (Inl e, s2)
       | Inr sessions \<Rightarrow>
           if \<not> py_truthy sessions then
             (case r2 of
                Inl e \<Rightarrow> (Inl e, s3)
              | Inr session \<Rightarrow>
                  (case py_item_str session ''id'' of
                     Inl e \<Rightarrow> (Inl e, s3)
                   | Inr i \<Rightarrow> (Inr i, s3\<lparr>current_session_id := i\<rparr>)))
           else
             (case first_listed_id sessions of
                Inl e \<Rightarrow> (Inl e, s2)
              | Inr i \<Rightarrow> (Inr i, s2\<lparr>current_session_id := i\<rparr>)))"
    by (simp add: get_or_create_session_def v l c first_listed_id_def split: sum.splits)
  from assms(2) g obtain sessions where r1: "r1 = Inr sessions"
    by (cases r1) auto
  show ?thesis
  proof (cases "py_truthy sessions")
    case True
    with assms(2) g r1 have "first_listed_id sessions = Inr sid"
      by (auto split: sum.splits)
    with True l r1 show ?thesis
      unfolding s1_def [symmetric] by simp
  next
    case False
    with assms(2) g r1 obtain session where "r2 = Inr session" "py_item_str session ''id'' = Inr sid"
      by (auto split: sum.splits)
    with False l c r1 show ?thesis
      unfolding s1_def [symmetric] by simp
  qed
qed


lemmas sim_run =
  sim_state_def sim_world_def ok_response_def status_response_def raise_for_status_def
  fetch_json_sim parse_json_sim sim_loads_simps sim_env_sel do_http_def effect_def
  environ_get_def py_index_def

lemma listed_known: "listed_now env_plain st_known (JStr ''s1'')"
  by (simp add: listed_now_def listing_has_def list_sessions_def st_known_def env_plain_def
      session_ids_def py_or_def sim_run)

lemma not_listed_stale: "\<not> listed_now env_plain st_stale (JStr ''ghost'')"
  by (simp add: listed_now_def listing_has_def list_sessions_def st_stale_def env_plain_def
      session_ids_def py_or_def sim_run)

lemma not_listed_ghost:
  "\<not> listed_now env_plain (switch_session ''ghost'' st_quiet) (JStr ''ghost'')"
  by (simp add: listed_now_def listing_has_def list_sessions_def st_quiet_def env_plain_def
      session_ids_def py_or_def switch_session_def sim_run)

lemma get_or_create_stale:
  "fst (get_or_create_session env_plain st_stale) = Inr (JStr ''s1'')"
  by (simp add: get_or_create_session_def verify_current_session_def list_sessions_def
      st_stale_def env_plain_def session_ids_def py_or_def sim_run)

text \<open>
  C5, as stated: every operation preserves that a non-empty current session id is an id the
  backend lists. It fails for \<open>switch_session\<close>, which stores the id it is given: with a
  backend that lists no session, the invariant holds before and not after.
\<close>

theorem switch_session_unverified_counterexample:
  "pointer_listed env_plain st_quiet \<and>
   \<not> pointer_listed env_plain (switch_session ''ghost'' st_quiet)"
proof -
  have "current_session_id st_quiet = JNull"
    by (simp add: st_quiet_def sim_state_def)
  then have a: "pointer_listed env_plain st_quiet"
    by (simp add: pointer_listed_def)
  have "current_session_id (switch_session ''ghost'' st_quiet) = JStr ''ghost''"
    by (simp add: switch_session_def)
  then have "\<not> pointer_listed env_plain (switch_session ''ghost'' st_quiet)"
    using not_listed_ghost by (simp add: pointer_listed_def)
  with a show ?thesis by blast
qed

text \<open>
  C5, amended. \<open>switch_session\<close> stores the id unverified; \<open>get_or_create_session\<close>
  verifies the pointer when it reads it. The verification succeeds exactly when the
  pointer is non-empty and the session list has it, and then the pointer is returned
  unchanged. When it fails (the id is absent or the listing raises) the pointer is left
  empty, nothing is raised, and the call continues as a call with an empty pointer: it
  lists the sessions and caches the id of the first one, or of the session it creates when
  there is none. When the call returns an id, the pointer is that id; when it raises, the
  pointer is empty.
\<close>

theorem get_or_create_session_verifies:
  "(fst (verify_current_session env s) =
      (py_truthy (current_session_id s) \<and> listed_now env s (current_session_id s))) \<and>
   (fst (verify_current_session env s) \<longrightarrow>
      get_or_create_session env s = (Inr (current_session_id s), snd (list_sessions env s))) \<and>
   (\<not> fst (verify_current_session env s) \<longrightarrow>
      \<not> py_truthy (current_session_id (snd (verify_current_session env s))) \<and>
      get_or_create_session env s =
        get_or_create_session env (snd (verify_current_session env s))) \<and>
   (\<forall>sid. fst (get_or_create_session env s) = Inr sid \<longrightarrow>
      current_session_id (snd (get_or_create_session env s)) = sid) \<and>
   (\<forall>sid. \<not> fst (verify_current_session env s) \<and>
          fst (get_or_create_session env s) = Inr sid \<longrightarrow>
      (\<exists>sessions.
         fst (list_sessions env (snd (verify_current_session env s))) = Inr sessions \<and>
         (if py_truthy sessions then first_listed_id sessions = Inr sid
          else (\<exists>session.
                  fst (create_session env None
                         (snd (list_sessions env (snd (verify_current_session env s))))) =
                    Inr session \<and>
                  py_item_str session ''id'' = Inr sid)))) \<and>
   (\<forall>e. fst (get_or_create_session env s) = Inl e \<longrightarrow>
      \<not> py_truthy (current_session_id (snd (get_or_create_session env s)))) \<and>
   current_session_id (switch_session session_id s) = JStr session_id"
proof (intro conjI impI allI)
  show "fst (verify_current_session env s) =
      (py_truthy (current_session_id s) \<and> listed_now env s (current_session_id s))"
    by (rule verify_iff)
next
  assume f: "fst (verify_current_session env s)"
  show "get_or_create_session env s = (Inr (current_session_id s), snd (list_sessions env s))"
    using get_or_create_found [OF f] verify_found [OF f] by simp
next
  assume n: "\<not> fst (verify_current_session env s)"
  show "\<not> py_truthy (current_session_id (snd (verify_current_session env s)))"
    using verify_not_found [OF n] by blast
  show "get_or_create_session env s =
      get_or_create_session env (snd (verify_current_session env s))"
    by (rule get_or_create_fallback [OF n])
next
  fix sid
  assume "fst (get_or_create_session env s) = Inr sid"
  then show "current_session_id (snd (get_or_create_session env s)) = sid"
    using get_or_create_result by blast
next
  fix sid
  assume "\<not> fst (verify_current_session env s) \<and> fst (get_or_create_session env s) = Inr sid"
  then show "\<exists>sessions.
         fst (list_sessions env (snd (verify_current_session env s))) = Inr sessions \<and>
         (if py_truthy sessions then first_listed_id sessions = Inr sid
          else (\<exists>session.
                  fst (create_session env None
                         (snd (list_sessions env (snd (verify_current_session env s))))) =
                    Inr session \<and>
                  py_item_str session ''id'' = Inr sid))"
    using get_or_create_origin by blast
next
  fix e
  assume "fst (get_or_create_session env s) = Inl e"
  then show "\<not> py_truthy (current_session_id (snd (get_or_create_session env s)))"
    using get_or_create_result by blast
next
  show "current_session_id (switch_session session_id s) = JStr session_id"
    by (simp add: switch_session_def)
qed

theorem get_or_create_session_verifies_witness:
  "fst (verify_current_session env_plain st_known) \<and>
   get_or_create_session env_plain st_known =
     (Inr (JStr ''s1''), snd (list_sessions env_plain st_known)) \<and>
   \<not> fst (verify_current_session env_plain st_stale) \<and>
   \<not> py_truthy (current_session_id (snd (verify_current_session env_plain st_stale))) \<and>
   fst (get_or_create_session env_plain st_stale) = Inr (JStr ''s1'') \<and>
   current_session_id (snd (get_or_create_session env_plain st_stale)) = JStr ''s1'' \<and>
   first_listed_id (JArr [JObj [(''id'', JStr ''s1'')]]) = Inr (JStr ''s1'')"
proof -
  have k: "current_session_id st_known = JStr ''s1''"
    by (simp add: st_known_def sim_state_def)
  have g: "current_session_id st_stale = JStr ''ghost''"
    by (simp add: st_stale_def sim_state_def)
  note a = get_or_create_session_verifies [of env_plain st_known]
  note b = get_or_create_session_verifies [of env_plain st_stale]
  have 1: "fst (verify_current_session env_plain st_known)"
    using a k listed_known by simp
  have 2: "get_or_create_session env_plain st_known =
     (Inr (JStr ''s1''), snd (list_sessions env_plain st_known))"
    using a 1 k by simp
  have 3: "\<not> fst (verify_current_session env_plain st_stale)"
    using b g not_listed_stale by simp
  have 4: "\<not> py_truthy (current_session_id (snd (verify_current_session env_plain st_stale)))"
    using b 3 by blast
  have 5: "current_session_id (snd (get_or_create_session env_plain st_stale)) = JStr ''s1''"
    using b get_or_create_stale by blast
  have 6: "first_listed_id (JArr [JObj [(''id'', JStr ''s1'')]]) = Inr (JStr ''s1'')"
    by (simp add: first_listed_id_def py_index_def)
  from 1 2 3 4 5 6 get_or_create_stale show ?thesis by blast
qed

section \<open>Properties of handle\_message\<close>

lemma handle_message_eval1:
  "map_option fst (handle_message env_plain ''hi'' st_retry_timeout) =
     Some (msg_call_failed (TimeoutException ''timed out''))"
  by (simp add: handle_message_def deliver_def handle_failure_def retry_once_def
      get_or_create_session_def verify_current_session_def list_sessions_def send_message_def
      st_retry_timeout_def env_plain_def py_strip_def py_lstrip_def py_rstrip_def sim_run)

lemma handle_message_eval2:
  "map_option fst (handle_message env_plain ''hi'' st_first_timeout) = Some msg_timeout"
  by (simp add: handle_message_def deliver_def handle_failure_def retry_once_def
      get_or_create_session_def verify_current_session_def list_sessions_def send_message_def
      st_first_timeout_def env_plain_def py_strip_def py_lstrip_def py_rstrip_def sim_run)

lemma msgs_differ: "msg_call_failed (TimeoutException ''timed out'') \<noteq> msg_timeout"
  by (simp add: msg_call_failed_def msg_timeout_def)

text \<open>
  C2, at the failing input: the first delivery is answered 404, the pointer is cleared and
  the delivery is retried once with the session obtained anew; the retry runs into the
  timeout of the HTTP client. \<open>handle_message\<close> reports it as a generic failure, without the
  guidance that the same failure of a first attempt gets.
\<close>

theorem handle_message_retry_timeout:
  "map_option fst (handle_message env_plain ''hi'' st_retry_timeout) =
     Some (msg_call_failed (TimeoutException ''timed out'')) \<and>
   msg_call_failed (TimeoutException ''timed out'') \<noteq> msg_timeout \<and>
   map_option fst (handle_message env_plain ''hi'' st_first_timeout) = Some msg_timeout"
  using handle_message_eval1 handle_message_eval2 msgs_differ by blast

section \<open>Effects on the trace\<close>

lemma effect_trace: "trace (snd (effect ev f s)) = trace s @ [ev]"
  by (simp add: effect_def split: prod.splits)

lemma effect_fst: "fst (effect ev f s) = fst (f (world s))"
  by (simp add: effect_def split: prod.splits)

lemma effect_world: "world (snd (effect ev f s)) = snd (f (world s))"
  by (simp add: effect_def split: prod.splits)

lemma do_sleep_trace: "trace (do_sleep env d s) = trace s @ [Sleep d]"
  by (simp add: do_sleep_def effect_trace)

lemma healthy_trace:
  "trace (snd (is_opencode_healthy env s)) = trace s @ [Http (health_request env)]"
  by (simp add: is_opencode_healthy_def do_http_def effect_def split: prod.splits sum.splits)

lemma check_port_trace_used:
  "fst (check_port env p s) = Inr (True, owner) \<Longrightarrow>
   trace (snd (check_port env p s)) = trace s @ [Connect DEFAULT_HOST p, ProcessOnPort p]"
  by (auto simp: check_port_def do_connect_def do_process_on_port_def effect_def
      split: prod.splits sum.splits if_splits)

lemma check_port_trace_free:
  "fst (check_port env p s) = Inr (False, owner) \<Longrightarrow>
   trace (snd (check_port env p s)) = trace s @ [Connect DEFAULT_HOST p]"
  by (auto simp: check_port_def do_connect_def do_process_on_port_def effect_def
      split: prod.splits sum.splits if_splits)

lemma check_port_kills: "kills (snd (check_port env p s)) = kills s"
  by (auto simp: kills_def check_port_def do_connect_def do_process_on_port_def effect_def
      split: prod.splits sum.splits if_splits)

lemma check_port_spawns: "spawns (snd (check_port env p s)) = spawns s"
  by (auto simp: spawns_def check_port_def do_connect_def do_process_on_port_def effect_def
      split: prod.splits sum.splits if_splits)

lemma poll_state_0: "poll_state env 0 s = s"
  by (simp add: poll_state_def)

lemma poll_state_Suc: "poll_state env (Suc k) s = poll_state env k (poll_step env s)"
  by (simp add: poll_state_def funpow_swap1)

lemma poll_state_step: "poll_state env (Suc k) s = poll_step env (poll_state env k s)"
  by (simp add: poll_state_def)

lemma poll_healthy_Suc: "poll_healthy env (Suc k) s = poll_healthy env k (poll_step env s)"
  by (simp add: poll_healthy_def poll_state_Suc)

lemma poll_step_trace:
  "trace (poll_step env s) = trace s @ [Sleep 1, Http (health_request env)]"
  by (simp add: poll_step_def healthy_trace do_sleep_trace)

lemma poll_state_trace:
  "trace (poll_state env k s) =
     trace s @ concat (replicate k [Sleep 1, Http (health_request env)])"
proof (induction k arbitrary: s)
  case 0
  show ?case by (simp add: poll_state_0)
next
  case (Suc k)
  show ?case
    by (simp add: poll_state_Suc Suc poll_step_trace)
qed

lemma wait_healthy_unfold:
  "wait_healthy env (Suc n) s =
     (if poll_healthy env 0 s then (True, poll_step env s)
      else wait_healthy env n (poll_step env s))"
  by (simp add: poll_healthy_def poll_state_0 poll_step_def case_prod_unfold)

lemma wait_healthy_first:
  "k < n \<Longrightarrow> (\<forall>j < k. \<not> poll_healthy env j s) \<Longrightarrow> poll_healthy env k s \<Longrightarrow>
   wait_healthy env n s = (True, poll_state env (Suc k) s)"
proof (induction n arbitrary: k s)
  case 0
  then show ?case by simp
next
  case (Suc n)
  show ?case
  proof (cases k)
    case 0
    with Suc.prems(3) show ?thesis
      by (simp add: wait_healthy_unfold poll_state_Suc poll_state_0 del: wait_healthy.simps)
  next
    case (Suc k')
    from Suc.prems(2) Suc have h0: "\<not> poll_healthy env 0 s" by simp
    have a: "k' < n" using Suc.prems(1) Suc by simp
    have b: "\<forall>j < k'. \<not> poll_healthy env j (poll_step env s)"
      using Suc.prems(2) Suc by (auto simp: poll_healthy_Suc [symmetric])
    have c: "poll_healthy env k' (poll_step env s)"
      using Suc.prems(3) Suc by (simp add: poll_healthy_Suc)
    have "wait_healthy env n (poll_step env s) = (True, poll_state env (Suc k') (poll_step env s))"
      by (rule Suc.IH [OF a b c])
    then show ?thesis
      using h0 Suc by (simp add: wait_healthy_unfold poll_state_Suc del: wait_healthy.simps)
  qed
qed

lemma wait_healthy_none:
  "(\<forall>j < n. \<not> poll_healthy env j s) \<Longrightarrow> wait_healthy env n s = (False, poll_state env n s)"
proof (induction n arbitrary: s)
  case 0
  show ?case by (simp add: poll_state_0)
next
  case (Suc n)
  from Suc.prems have h0: "\<not> poll_healthy env 0 s" by simp
  have "\<forall>j < n. \<not> poll_healthy env j (poll_step env s)"
    using Suc.prems by (auto simp: poll_healthy_Suc [symmetric])
  then have "wait_healthy env n (poll_step env s) = (False, poll_state env n (poll_step env s))"
    by (rule Suc.IH)
  then show ?case
    using h0 by (simp add: wait_healthy_unfold poll_state_Suc del: wait_healthy.simps)
qed


lemma resolve_port_idem: "resolve_port env (Some (resolve_port env port)) = resolve_port env port"
  by (cases port) (auto simp: resolve_port_def int_or_def Let_def DEFAULT_PORT_def)

lemma start_opencode_trace:
  assumes "fst (start_opencode env port hostname log_path cwd s) = Inr (True, msg)"
  shows "trace (snd (start_opencode env port hostname log_path cwd s)) =
         trace s @ spawn_events env (resolve_port env port) (str_or hostname DEFAULT_HOST) log_path cwd s"
proof (cases "str_truthy log_path")
  case True
  with assms show ?thesis
    by (auto simp: start_opencode_def spawn_events_def work_dir_of_def Let_def
        do_makedirs_def do_open_append_def do_popen_def do_close_def effect_def
        split: prod.splits sum.splits if_splits)
next
  case False
  with assms show ?thesis
    by (auto simp: start_opencode_def spawn_events_def work_dir_of_def Let_def
        do_makedirs_def do_open_append_def do_popen_def do_close_def effect_def
        split: prod.splits sum.splits if_splits)
qed

lemma ensure_healthy:
  "fst (is_opencode_healthy env s) \<Longrightarrow>
   ensure_opencode_running env port log_path cwd s =
     (Inr (True, msg_running), snd (is_opencode_healthy env s))"
  by (simp add: ensure_opencode_running_def case_prod_unfold)

lemma ensure_occupied:
  "\<not> fst (is_opencode_healthy env s) \<Longrightarrow>
   fst (check_port env (resolve_port env port) (snd (is_opencode_healthy env s))) = Inr (True, pid, cmd) \<Longrightarrow>
   \<not> fst (is_opencode_healthy env
        (snd (check_port env (resolve_port env port) (snd (is_opencode_healthy env s))))) \<Longrightarrow>
   ensure_opencode_running env port log_path cwd s =
     (Inr (False, msg_occupied (resolve_port env port) pid cmd),
      snd (is_opencode_healthy env
        (snd (check_port env (resolve_port env port) (snd (is_opencode_healthy env s))))))"
  by (simp add: ensure_opencode_running_def case_prod_unfold Let_def)

lemma ensure_started:
  "\<not> fst (is_opencode_healthy env s) \<Longrightarrow>
   fst (check_port env (resolve_port env port) (snd (is_opencode_healthy env s))) = Inr (False, pid, cmd) \<Longrightarrow>
   fst (start_opencode env (Some (resolve_port env port)) None log_path cwd
         (snd (check_port env (resolve_port env port) (snd (is_opencode_healthy env s))))) =
     Inr (True, msg) \<Longrightarrow>
   ensure_opencode_running env port log_path cwd s =
     (case wait_healthy env 10
        (snd (start_opencode env (Some (resolve_port env port)) None log_path cwd
           (snd (check_port env (resolve_port env port) (snd (is_opencode_healthy env s)))))) of
        (h3, s4) \<Rightarrow> if h3 then (Inr (True, msg), s4) else (Inr (False, msg_unhealthy_retry), s4))"
  by (simp add: ensure_opencode_running_def case_prod_unfold Let_def)


text \<open>
  C3. The cases of \<open>ensure_opencode_running\<close>, each with all the effects performed, in
  order. Healthy at the first probe: success, and the probe is the only effect (nothing
  is spawned). Unhealthy, the port occupied, unhealthy again: failure, and the effects are
  the two probes and the port check (no signal is sent). Unhealthy and the port free, the
  start succeeding: the effects of the start are those of \<open>spawn_events\<close> (the working
  directory is created if absent, the backend is spawned detached), then the health is
  polled after a sleep of one second each time, at most 10 times; the first healthy poll
  gives success; 10 unhealthy polls give failure, with no effect but the polls after the
  spawn (the process is left running).
\<close>

theorem ensure_opencode_running_cases:
  "let h1 = is_opencode_healthy env s;
       port1 = resolve_port env port;
       cp = check_port env port1 (snd h1);
       h2 = is_opencode_healthy env (snd cp);
       st = start_opencode env (Some port1) None log_path cwd (snd cp);
       r = ensure_opencode_running env port log_path cwd s;
       probe = Http (health_request env)
   in (fst h1 \<longrightarrow>
         r = (Inr (True, msg_running), snd h1) \<and> trace (snd r) = trace s @ [probe]) \<and>
      (\<not> fst h1 \<and> fst cp = Inr (True, pid, cmd) \<and> \<not> fst h2 \<longrightarrow>
         r = (Inr (False, msg_occupied port1 pid cmd), snd h2) \<and>
         trace (snd r) =
           trace s @ [probe, Connect DEFAULT_HOST port1, ProcessOnPort port1, probe]) \<and>
      (\<not> fst h1 \<and> fst cp = Inr (False, pid, cmd) \<and> fst st = Inr (True, msg) \<longrightarrow>
         trace (snd st) =
           trace s @ [probe, Connect DEFAULT_HOST port1] @
           spawn_events env port1 DEFAULT_HOST log_path cwd (snd cp) \<and>
         (\<forall>k < 10. (\<forall>j < k. \<not> poll_healthy env j (snd st)) \<and> poll_healthy env k (snd st) \<longrightarrow>
            r = (Inr (True, msg), poll_state env (Suc k) (snd st)) \<and>
            trace (snd r) = trace (snd st) @ concat (replicate (Suc k) [Sleep 1, probe])) \<and>
         ((\<forall>j < 10. \<not> poll_healthy env j (snd st)) \<longrightarrow>
            r = (Inr (False, msg_unhealthy_retry), poll_state env 10 (snd st)) \<and>
            trace (snd r) = trace (snd st) @ concat (replicate 10 [Sleep 1, probe])))"
proof -
  define h1 where "h1 = is_opencode_healthy env s"
  define port1 where "port1 = resolve_port env port"
  define cp where "cp = check_port env port1 (snd h1)"
  define h2 where "h2 = is_opencode_healthy env (snd cp)"
  define st where "st = start_opencode env (Some port1) None log_path cwd (snd cp)"
  define r where "r = ensure_opencode_running env port log_path cwd s"
  define probe where "probe = Http (health_request env)"
  have t1: "trace (snd h1) = trace s @ [probe]"
    by (simp add: h1_def probe_def healthy_trace)
  have A: "r = (Inr (True, msg_running), snd h1) \<and> trace (snd r) = trace s @ [probe]"
    if "fst h1"
    using that t1 by (simp add: r_def h1_def ensure_healthy)
  have B: "r = (Inr (False, msg_occupied port1 pid cmd), snd h2) \<and>
      trace (snd r) = trace s @ [probe, Connect DEFAULT_HOST port1, ProcessOnPort port1, probe]"
    if "\<not> fst h1 \<and> fst cp = Inr (True, pid, cmd) \<and> \<not> fst h2"
  proof -
    have "r = (Inr (False, msg_occupied port1 pid cmd), snd h2)"
      using that unfolding r_def h1_def cp_def h2_def port1_def by (simp add: ensure_occupied)
    moreover have "trace (snd cp) = trace (snd h1) @ [Connect DEFAULT_HOST port1, ProcessOnPort port1]"
      using that unfolding cp_def by (simp add: check_port_trace_used)
    moreover have "trace (snd h2) = trace (snd cp) @ [probe]"
      by (simp add: h2_def probe_def healthy_trace)
    ultimately show ?thesis using t1 by simp
  qed
  have C: "trace (snd st) =
           trace s @ [probe, Connect DEFAULT_HOST port1] @
           spawn_events env port1 DEFAULT_HOST log_path cwd (snd cp) \<and>
         (\<forall>k < 10. (\<forall>j < k. \<not> poll_healthy env j (snd st)) \<and> poll_healthy env k (snd st) \<longrightarrow>
            r = (Inr (True, msg), poll_state env (Suc k) (snd st)) \<and>
            trace (snd r) = trace (snd st) @ concat (replicate (Suc k) [Sleep 1, probe])) \<and>
         ((\<forall>j < 10. \<not> poll_healthy env j (snd st)) \<longrightarrow>
            r = (Inr (False, msg_unhealthy_retry), poll_state env 10 (snd st)) \<and>
            trace (snd r) = trace (snd st) @ concat (replicate 10 [Sleep 1, probe]))"
    if c: "\<not> fst h1 \<and> fst cp = Inr (False, pid, cmd) \<and> fst st = Inr (True, msg)"
  proof -
    have e: "r = (case wait_healthy env 10 (snd st) of
        (h3, s4) \<Rightarrow> if h3 then (Inr (True, msg), s4) else (Inr (False, msg_unhealthy_retry), s4))"
      using c unfolding r_def h1_def cp_def st_def port1_def by (simp add: ensure_started)
    have tc: "trace (snd cp) = trace (snd h1) @ [Connect DEFAULT_HOST port1]"
      using c unfolding cp_def by (simp add: check_port_trace_free)
    have ts: "trace (snd st) = trace (snd cp) @ spawn_events env port1 DEFAULT_HOST log_path cwd (snd cp)"
      using c start_opencode_trace [of env "Some port1" None log_path cwd "snd cp" msg]
      unfolding st_def port1_def by (simp add: resolve_port_idem str_or_def)
    have 1: "trace (snd st) =
           trace s @ [probe, Connect DEFAULT_HOST port1] @
           spawn_events env port1 DEFAULT_HOST log_path cwd (snd cp)"
      using t1 tc ts by simp
    have 2: "r = (Inr (True, msg), poll_state env (Suc k) (snd st)) \<and>
            trace (snd r) = trace (snd st) @ concat (replicate (Suc k) [Sleep 1, probe])"
      if "k < 10" "\<forall>j < k. \<not> poll_healthy env j (snd st)" "poll_healthy env k (snd st)" for k
      using wait_healthy_first [OF that] e by (simp add: poll_state_trace probe_def del: replicate.simps)
    have 3: "r = (Inr (False, msg_unhealthy_retry), poll_state env 10 (snd st)) \<and>
            trace (snd r) = trace (snd st) @ concat (replicate 10 [Sleep 1, probe])"
      if "\<forall>j < 10. \<not> poll_healthy env j (snd st)"
      using wait_healthy_none [OF that] e by (simp add: poll_state_trace probe_def del: replicate.simps)
    from 1 2 3 show ?thesis by blast
  qed
  from A B C show ?thesis
    unfolding Let_def h1_def [symmetric] port1_def [symmetric] cp_def [symmetric]
      h2_def [symmetric] st_def [symmetric] r_def [symmetric] probe_def [symmetric]
    by blast
qed


section \<open>Runs in the scripted environment\<close>

lemma sim_healthy_fst:
  "fst (is_opencode_healthy (sim_env vars) s) =
     (case sim_http (world s) of [] \<Rightarrow> False | r # rs \<Rightarrow> sim_healthy_reply r)"
  by (simp add: is_opencode_healthy_def do_http_def effect_def sim_env_sel sim_healthy_reply_def
      split: list.splits sum.splits)

lemma sim_healthy_world:
  "world (snd (is_opencode_healthy (sim_env vars) s)) =
     (world s)\<lparr>sim_http := tl (sim_http (world s))\<rparr>"
  by (simp add: is_opencode_healthy_def do_http_def effect_def sim_env_sel
      split: list.splits sum.splits)

lemma sim_check_port_fst:
  "fst (check_port (sim_env vars) p s) =
     (case sim_connect (world s) of
        [] \<Rightarrow> Inr (False, None, None)
      | b # bs \<Rightarrow> if b then Inr (True, sim_owner (world s), None) else Inr (False, None, None))"
  by (simp add: check_port_def do_connect_def do_process_on_port_def effect_def sim_env_sel
      split: list.splits)

lemma sim_check_port_world:
  "world (snd (check_port (sim_env vars) p s)) =
     (world s)\<lparr>sim_connect := tl (sim_connect (world s))\<rparr>"
  by (simp add: check_port_def do_connect_def do_process_on_port_def effect_def sim_env_sel
      split: list.splits)

lemma sim_sleep_world:
  "world (do_sleep (sim_env vars) d s) = (world s)\<lparr>sim_clock := sim_clock (world s) + d\<rparr>"
  by (simp add: do_sleep_def effect_def sim_env_sel)

lemma sim_start_fst:
  "fst (start_opencode (sim_env vars) port hostname log_path cwd s) =
     Inr (True, msg_started 4242 (str_or hostname DEFAULT_HOST) (resolve_port (sim_env vars) port)
                  (work_dir_of (sim_env vars) cwd s))"
  by (simp add: start_opencode_def Let_def work_dir_of_def do_makedirs_def do_open_append_def
      do_popen_def do_close_def effect_def sim_env_sel)

lemma sim_start_world:
  "world (snd (start_opencode (sim_env vars) port hostname log_path cwd s)) = world s"
  by (simp add: start_opencode_def Let_def do_makedirs_def do_open_append_def
      do_popen_def do_close_def effect_def sim_env_sel)

lemma sim_poll_step_world:
  "world (poll_step (sim_env vars) s) =
     (world s)\<lparr>sim_clock := sim_clock (world s) + 1, sim_http := tl (sim_http (world s))\<rparr>"
  by (simp add: poll_step_def sim_healthy_world sim_sleep_world)

lemma sim_poll_healthy_0:
  "poll_healthy (sim_env vars) 0 s =
     (case sim_http (world s) of [] \<Rightarrow> False | r # rs \<Rightarrow> sim_healthy_reply r)"
  by (simp add: poll_healthy_def poll_state_0 sim_healthy_fst sim_sleep_world)

lemma sim_poll_never:
  "sim_http (world s) = [] \<Longrightarrow> \<not> poll_healthy (sim_env vars) j s"
proof (induction j arbitrary: s)
  case 0
  then show ?case by (simp add: sim_poll_healthy_0)
next
  case (Suc j)
  have "sim_http (world (poll_step (sim_env vars) s)) = []"
    using Suc.prems by (simp add: sim_poll_step_world)
  then show ?case
    using Suc.IH by (simp add: poll_healthy_Suc)
qed

lemma sim_replies:
  "sim_healthy_reply (ok_response body_healthy)"
  "\<not> sim_healthy_reply (Inl e)"
  by (simp_all add: sim_healthy_reply_def ok_response_def sim_loads_def sim_table_def
      body_healthy_def)

lemma sim_state_sel:
  "world (sim_state w cur) = w" "trace (sim_state w cur) = []"
  "current_session_id (sim_state w cur) = cur" "last_opencode_cwd (sim_state w cur) = None"
  by (simp_all add: sim_state_def)

lemma sim_world_sel:
  "sim_http (sim_world replies probes) = replies"
  "sim_connect (sim_world replies probes) = probes"
  "sim_owner (sim_world replies probes) = Some 77"
  "sim_kill (sim_world replies probes) = None"
  "sim_clock (sim_world replies probes) = 0"
  by (simp_all add: sim_world_def)

lemmas sim_eval =
  sim_healthy_fst sim_healthy_world sim_check_port_fst sim_check_port_world sim_sleep_world
  sim_start_fst sim_start_world sim_poll_step_world sim_poll_healthy_0 sim_replies
  sim_state_sel sim_world_sel

lemma up1: "fst (is_opencode_healthy env_plain st_up)"
  by (simp add: env_plain_def st_up_def sim_eval)

lemma occ1:
  "\<not> fst (is_opencode_healthy env_plain st_occupied)"
  "fst (check_port env_plain p (snd (is_opencode_healthy env_plain st_occupied))) =
     Inr (True, Some 77, None)"
  "\<not> fst (is_opencode_healthy env_plain
       (snd (check_port env_plain p (snd (is_opencode_healthy env_plain st_occupied)))))"
  by (simp_all add: env_plain_def st_occupied_def sim_eval)

lemma down1:
  "\<not> fst (is_opencode_healthy env_plain st_down)"
  "fst (check_port env_plain p (snd (is_opencode_healthy env_plain st_down))) =
     Inr (False, None, None)"
  "poll_healthy env_plain 0
     (snd (start_opencode env_plain q None None None
        (snd (check_port env_plain p (snd (is_opencode_healthy env_plain st_down))))))"
  by (simp_all add: env_plain_def st_down_def sim_eval)

lemma never1:
  "\<not> fst (is_opencode_healthy env_plain st_never)"
  "fst (check_port env_plain p (snd (is_opencode_healthy env_plain st_never))) =
     Inr (False, None, None)"
  "\<not> poll_healthy env_plain j
     (snd (start_opencode env_plain q None None None
        (snd (check_port env_plain p (snd (is_opencode_healthy env_plain st_never))))))"
  by (simp_all add: env_plain_def st_never_def sim_eval sim_poll_never)


lemma nat_digits_numeral:
  "nat_digits (numeral k) n =
     (if n < 10 then [''0123456789'' ! n]
      else nat_digits (pred_numeral k) (n div 10) @ [''0123456789'' ! (n mod 10)])"
  by (simp add: numeral_eq_Suc)

lemma str_4096: "py_str_int 4096 = ''4096''"
  by (simp add: py_str_int_def nat_digits_numeral)

lemma get_base_url_plain: "get_base_url env_plain = ''http://127.0.0.1:4096''"
  by (simp add: get_base_url_def environ_get_def env_plain_def sim_env_sel DEFAULT_HOST_def
      DEFAULT_PORT_def str_4096)

lemma parse_default_url: "parse_port_from_base_url ''http://127.0.0.1:4096'' = 4096"
  by (simp add: parse_port_from_base_url_def parse_port_try_def py_startswith_def py_index_def
      py_int_def py_strip_def py_lstrip_def py_rstrip_def py_isspace_def is_digit_def digit_val_def)

lemma resolve_port_plain:
  "resolve_port env_plain None = 4096" "resolve_port env_plain (Some 4096) = 4096"
  by (simp_all add: resolve_port_def int_or_def get_base_url_plain parse_default_url DEFAULT_PORT_def)

lemma default_cwd_plain: "default_cwd env_plain s = ''~/bots/2024-01-01''"
  by (simp add: default_cwd_def environ_get_def env_plain_def sim_env_sel
      py_strip_def py_lstrip_def py_rstrip_def)


lemma work_dir_plain: "work_dir_of env_plain None s = ''~/bots/2024-01-01''"
  by (simp add: work_dir_of_def str_truthy_def default_cwd_plain)

lemma start_plain_fst:
  "fst (start_opencode env_plain (Some 4096) None None None s) =
     Inr (True, msg_started 4242 DEFAULT_HOST 4096 ''~/bots/2024-01-01'')"
  using sim_start_fst [of Map.empty "Some 4096" None None None s]
  by (simp add: env_plain_def [symmetric] resolve_port_plain work_dir_plain str_or_def)

theorem ensure_opencode_running_cases_witness:
  "fst (is_opencode_healthy env_plain st_up) \<and>
   ensure_opencode_running env_plain None None None st_up =
     (Inr (True, msg_running), snd (is_opencode_healthy env_plain st_up)) \<and>
   trace (snd (ensure_opencode_running env_plain None None None st_up)) =
     [Http (health_request env_plain)] \<and>
   fst (ensure_opencode_running env_plain None None None st_occupied) =
     Inr (False, msg_occupied 4096 (Some 77) None) \<and>
   trace (snd (ensure_opencode_running env_plain None None None st_occupied)) =
     [Http (health_request env_plain), Connect DEFAULT_HOST 4096, ProcessOnPort 4096,
      Http (health_request env_plain)] \<and>
   fst (ensure_opencode_running env_plain None None None st_down) =
     Inr (True, msg_started 4242 DEFAULT_HOST 4096 ''~/bots/2024-01-01'') \<and>
   fst (ensure_opencode_running env_plain None None None st_never) =
     Inr (False, msg_unhealthy_retry)"
proof -
  have e: "trace st_up = []" "trace st_occupied = []"
    by (simp_all add: st_up_def st_occupied_def sim_state_sel)
  note up = ensure_opencode_running_cases
    [where env = env_plain and s = st_up and port = None and log_path = None and cwd = None,
     unfolded Let_def]
  from up up1 have a1: "ensure_opencode_running env_plain None None None st_up =
     (Inr (True, msg_running), snd (is_opencode_healthy env_plain st_up))"
    by blast
  from up up1 have "trace (snd (ensure_opencode_running env_plain None None None st_up)) =
     trace st_up @ [Http (health_request env_plain)]"
    by blast
  then have a2: "trace (snd (ensure_opencode_running env_plain None None None st_up)) =
     [Http (health_request env_plain)]"
    by (simp only: e append_Nil)
  note occ = ensure_opencode_running_cases
    [where env = env_plain and s = st_occupied and port = None and log_path = None
       and cwd = None and pid = "Some 77" and cmd = None, unfolded Let_def resolve_port_plain]
  from occ occ1 have "ensure_opencode_running env_plain None None None st_occupied =
       (Inr (False, msg_occupied 4096 (Some 77) None),
        snd (is_opencode_healthy env_plain
          (snd (check_port env_plain 4096 (snd (is_opencode_healthy env_plain st_occupied))))))"
    by blast
  then have b1: "fst (ensure_opencode_running env_plain None None None st_occupied) =
     Inr (False, msg_occupied 4096 (Some 77) None)"
    by simp
  from occ occ1 have "trace (snd (ensure_opencode_running env_plain None None None st_occupied)) =
     trace st_occupied @
     [Http (health_request env_plain), Connect DEFAULT_HOST 4096, ProcessOnPort 4096,
      Http (health_request env_plain)]"
    by blast
  then have b2: "trace (snd (ensure_opencode_running env_plain None None None st_occupied)) =
     [Http (health_request env_plain), Connect DEFAULT_HOST 4096, ProcessOnPort 4096,
      Http (health_request env_plain)]"
    by (simp only: e append_Nil)
  note down = ensure_opencode_running_cases
    [where env = env_plain and s = st_down and port = None and log_path = None
       and cwd = None and pid = None and cmd = None
       and msg = "msg_started 4242 DEFAULT_HOST 4096 ''~/bots/2024-01-01''",
     unfolded Let_def resolve_port_plain]
  have d0: "(0::nat) < 10" by simp
  from down down1 start_plain_fst d0
  have "ensure_opencode_running env_plain None None None st_down =
       (Inr (True, msg_started 4242 DEFAULT_HOST 4096 ''~/bots/2024-01-01''),
        poll_state env_plain (Suc 0)
          (snd (start_opencode env_plain (Some 4096) None None None
             (snd (check_port env_plain 4096 (snd (is_opencode_healthy env_plain st_down)))))))"
    by (metis not_less_zero)
  then have c: "fst (ensure_opencode_running env_plain None None None st_down) =
     Inr (True, msg_started 4242 DEFAULT_HOST 4096 ''~/bots/2024-01-01'')"
    by simp
  note never = ensure_opencode_running_cases
    [where env = env_plain and s = st_never and port = None and log_path = None
       and cwd = None and pid = None and cmd = None
       and msg = "msg_started 4242 DEFAULT_HOST 4096 ''~/bots/2024-01-01''",
     unfolded Let_def resolve_port_plain]
  from never never1 start_plain_fst
  have "ensure_opencode_running env_plain None None None st_never =
       (Inr (False, msg_unhealthy_retry),
        poll_state env_plain 10
          (snd (start_opencode env_plain (Some 4096) None None None
             (snd (check_port env_plain 4096 (snd (is_opencode_healthy env_plain st_never)))))))"
    by blast
  then have d: "fst (ensure_opencode_running env_plain None None None st_never) =
     Inr (False, msg_unhealthy_retry)"
    by simp
  from a1 a2 b1 b2 c d up1 show ?thesis by blast
qed

end
